theory Spec2Isabelle
  imports Complex_Main "HOL-Library.Char_ord" "HOL-Library.List_Lexorder"
begin

section \<open>Tables\<close>

text \<open>
  A pandas DataFrame as the pipeline uses it: a header of named, typed columns and
  the rows below it, in order. A cell is a missing value (NaN), a number, a text or a
  timestamp. Numbers are exact rationals; the only place where floating-point rounding
  enters (the float32 downcast) takes the rounding function of the library as a parameter.
  The dtypes are the ones the CSV reader infers (int64, float64, object) and the one
  of a stamped timestamp column (datetime64).
\<close>

datatype cell = Null | Num rat | Str string | Time nat

datatype dtype = Int64 | Float64 | Object | Datetime64

record dataframe =
  columns :: "(string \<times> dtype) list"
  rows :: "cell list list"

text \<open>Exceptions, with the message that \<^verbatim>\<open>str(e)\<close> gives.\<close>

datatype exn =
    Exception string
  | ValueError string
  | TypeError string
  | FileNotFoundError string
  | OSError string
  | RequestException string
  | ParserError string
  | EmptyDataError string
  | OperationalError string

fun str :: "exn \<Rightarrow> string" where
  "str (Exception m) = m"
| "str (ValueError m) = m"
| "str (TypeError m) = m"
| "str (FileNotFoundError m) = m"
| "str (OSError m) = m"
| "str (RequestException m) = m"
| "str (ParserError m) = m"
| "str (EmptyDataError m) = m"
| "str (OperationalError m) = m"

text \<open>An HTTP response as the fetcher consumes it: the error that
  \<^verbatim>\<open>raise_for_status()\<close> raises, if any, the chunks that \<^verbatim>\<open>iter_content\<close> delivers, and the
  transport error that ends the stream early, if any.\<close>

record response =
  status_error :: "exn option"
  content_chunks :: "string list"
  stream_error :: "exn option"

text \<open>What the program takes from its libraries and surroundings and cannot be read off
  its own source: the text-to-number parser behind \<^verbatim>\<open>pd.to_numeric\<close>, the rounding of a
  number to float32, the system clock (\<open>datetime_now k\<close> is the reading that the \<open>k\<close>-th
  call of \<^verbatim>\<open>datetime.now()\<close> returns), the CSV parser (\<open>pd_read_csv content chunksize
  compression\<close> is the sequence of chunks that iterating \<^verbatim>\<open>pd.read_csv\<close> yields, or the
  exception it raises) and the remote server behind \<^verbatim>\<open>requests.get\<close>.\<close>

record env =
  parse_number :: "string \<Rightarrow> rat option"
  to_float32 :: "rat \<Rightarrow> rat"
  datetime_now :: "nat \<Rightarrow> nat"
  pd_read_csv :: "string \<Rightarrow> int \<Rightarrow> string option \<Rightarrow> exn + dataframe list"
  requests_get :: "string \<Rightarrow> exn + response"

definition len :: "dataframe \<Rightarrow> nat" where
  "len df = length (rows df)"

text \<open>\<^verbatim>\<open>df.empty\<close>: one of the two axes has length zero.\<close>

definition empty_df :: "dataframe \<Rightarrow> bool" where
  "empty_df df = (columns df = [] \<or> rows df = [])"

text \<open>\<^verbatim>\<open>pd.DataFrame()\<close>\<close>

definition DataFrame :: dataframe where
  "DataFrame = \<lparr>columns = [], rows = []\<rparr>"

definition column_dtype :: "nat \<Rightarrow> dataframe \<Rightarrow> dtype" where
  "column_dtype j df = snd (columns df ! j)"

text \<open>\<^verbatim>\<open>df[column]\<close>, the cells of the column at position \<open>j\<close>, top to bottom.\<close>

definition column_cells :: "nat \<Rightarrow> dataframe \<Rightarrow> cell list" where
  "column_cells j df = map (\<lambda>r. r ! j) (rows df)"

text \<open>\<^verbatim>\<open>df.loc[:, column] = values\<close>: the cells of column \<open>j\<close> are overwritten row by
  row. The assignment writes into the existing column, so the column keeps its dtype
  (pandas 2 sets the values in place whenever the column can hold them, which is the
  case at every use below).\<close>

definition loc_set :: "nat \<Rightarrow> cell list \<Rightarrow> dataframe \<Rightarrow> dataframe" where
  "loc_set j vs df = df\<lparr>rows := map (\<lambda>(r, v). r[j := v]) (zip (rows df) vs)\<rparr>"

fun find_column :: "string \<Rightarrow> (string \<times> dtype) list \<Rightarrow> nat option" where
  "find_column n [] = None"
| "find_column n (c # cs) =
     (if fst c = n then Some 0 else map_option Suc (find_column n cs))"

text \<open>\<^verbatim>\<open>df[name] = scalar\<close>: an existing column of that name is replaced, otherwise a
  new column is appended on the right; every row receives the same scalar.\<close>

definition setitem :: "string \<Rightarrow> dtype \<Rightarrow> cell \<Rightarrow> dataframe \<Rightarrow> dataframe" where
  "setitem n dt v df =
     (case find_column n (columns df) of
        Some j \<Rightarrow> \<lparr>columns = (columns df)[j := (n, dt)], rows = map (\<lambda>r. r[j := v]) (rows df)\<rparr>
      | None \<Rightarrow> \<lparr>columns = columns df @ [(n, dt)], rows = map (\<lambda>r. r @ [v]) (rows df)\<rparr>)"

text \<open>Reading the cell of a row under a column name.\<close>

definition cell_at :: "dataframe \<Rightarrow> string \<Rightarrow> cell list \<Rightarrow> cell option" where
  "cell_at df n r =
     (case find_column n (columns df) of
        Some j \<Rightarrow> (if j < length r then Some (r ! j) else None)
      | None \<Rightarrow> None)"

text \<open>A table as the reader produces it: distinct column names, every row as wide as
  the header.\<close>

definition well_formed :: "dataframe \<Rightarrow> bool" where
  "well_formed df =
     (distinct (map fst (columns df)) \<and> list_all (\<lambda>r. length r = length (columns df)) (rows df))"

subsection \<open>Library operations on rows and columns\<close>

text \<open>\<^verbatim>\<open>drop_duplicates()\<close>: a row equal to an earlier one in every column is dropped, the
  first occurrence stays. Missing values compare equal to each other here.\<close>

fun dedup_from :: "'a list \<Rightarrow> 'a list \<Rightarrow> 'a list" where
  "dedup_from seen [] = []"
| "dedup_from seen (x # xs) =
     (if x \<in> set seen then dedup_from seen xs else x # dedup_from (x # seen) xs)"

definition drop_duplicates :: "dataframe \<Rightarrow> dataframe" where
  "drop_duplicates df = df\<lparr>rows := dedup_from [] (rows df)\<rparr>"

text \<open>\<^verbatim>\<open>dropna()\<close> keeps the rows without a missing value; \<^verbatim>\<open>isnull().sum().sum()\<close>
  counts the missing cells.\<close>

definition dropna :: "dataframe \<Rightarrow> dataframe" where
  "dropna df = df\<lparr>rows := filter (\<lambda>r. Null \<notin> set r) (rows df)\<rparr>"

definition isnull_sum_sum :: "dataframe \<Rightarrow> nat" where
  "isnull_sum_sum df = sum_list (map (\<lambda>r. length (filter (\<lambda>c. c = Null) r)) (rows df))"

definition fillna :: "cell \<Rightarrow> cell list \<Rightarrow> cell list" where
  "fillna v cs = map (\<lambda>c. if c = Null then v else c) cs"

definition numbers :: "cell list \<Rightarrow> rat list" where
  "numbers cs = concat (map (\<lambda>c. case c of Num q \<Rightarrow> [q] | _ \<Rightarrow> []) cs)"

text \<open>\<^verbatim>\<open>median()\<close> skips missing values; of an even number of values it is the mean of
  the two middle ones, of none it is NaN.\<close>

definition median :: "cell list \<Rightarrow> cell" where
  "median cs =
     (let xs = sort (numbers cs); n = length xs in
      if n = 0 then Null
      else if odd n then Num (xs ! (n div 2))
      else Num ((xs ! (n div 2 - 1) + xs ! (n div 2)) / 2))"

text \<open>\<^verbatim>\<open>mode()\<close>: the most frequent values among the non-missing ones, sorted when they
  can be compared (all numbers, all texts or all timestamps), in order of first
  appearance otherwise.\<close>

fun cell_less :: "cell \<Rightarrow> cell \<Rightarrow> bool" where
  "cell_less (Num a) (Num b) = (a < b)"
| "cell_less (Str a) (Str b) = (a < b)"
| "cell_less (Time a) (Time b) = (a < b)"
| "cell_less _ _ = False"

fun insert_cell :: "cell \<Rightarrow> cell list \<Rightarrow> cell list" where
  "insert_cell v [] = [v]"
| "insert_cell v (w # ws) = (if cell_less w v then w # insert_cell v ws else v # w # ws)"

fun same_kind :: "cell \<Rightarrow> cell \<Rightarrow> bool" where
  "same_kind (Num _) (Num _) = True"
| "same_kind (Str _) (Str _) = True"
| "same_kind (Time _) (Time _) = True"
| "same_kind _ _ = False"

definition mode :: "cell list \<Rightarrow> cell list" where
  "mode cs =
     (let vs = dedup_from [] (filter (\<lambda>c. c \<noteq> Null) cs);
          top = fold max (map (count_list cs) vs) 0;
          ms = filter (\<lambda>v. count_list cs v = top) vs
      in case ms of
           [] \<Rightarrow> []
         | m # _ \<Rightarrow> if list_all (same_kind m) ms then foldr insert_cell ms [] else ms)"

text \<open>\<^verbatim>\<open>pd.to_numeric(column, errors='coerce')\<close>: a number stays, a text becomes the
  number it spells, and whatever does not convert becomes NaN.\<close>

fun coerce_cell :: "env \<Rightarrow> cell \<Rightarrow> cell" where
  "coerce_cell pd (Num q) = Num q"
| "coerce_cell pd (Str s) = (case parse_number pd s of Some q \<Rightarrow> Num q | None \<Rightarrow> Null)"
| "coerce_cell pd _ = Null"

definition to_numeric_coerce :: "env \<Rightarrow> cell list \<Rightarrow> cell list" where
  "to_numeric_coerce pd cs = map (coerce_cell pd) cs"

text \<open>\<^verbatim>\<open>pd.to_numeric(column, downcast='integer')\<close> narrows the storage of integers and
  leaves every value as it is. \<^verbatim>\<open>downcast='float'\<close> rounds the column to float32 when
  every rounded value stays within 0.0005 of the original, and leaves it alone otherwise.\<close>

definition to_numeric_downcast_integer :: "cell list \<Rightarrow> cell list" where
  "to_numeric_downcast_integer cs = cs"

fun round_cell :: "env \<Rightarrow> cell \<Rightarrow> cell" where
  "round_cell pd (Num q) = Num (to_float32 pd q)"
| "round_cell pd c = c"

definition to_numeric_downcast_float :: "env \<Rightarrow> cell list \<Rightarrow> cell list" where
  "to_numeric_downcast_float pd cs =
     (if list_all (\<lambda>q. \<bar>to_float32 pd q - q\<bar> \<le> 5 / 10000) (numbers cs)
      then map (round_cell pd) cs else cs)"

section \<open>Configuration\<close>

definition DOWNLOAD_PATH :: string where
  "DOWNLOAD_PATH = ''data/downloaded_data.csv.gz''"

definition CSV_URL :: string where
  "CSV_URL = ''https://tyroo-engineering-assesments.s3.us-west-2.amazonaws.com/Tyroo-dummy-data.csv.gz''"

definition CHUNK_SIZE :: int where
  "CHUNK_SIZE = 10000"

definition BATCH_SIZE :: int where
  "BATCH_SIZE = 1000"

text \<open>\<^verbatim>\<open>os.path.basename\<close>, \<^verbatim>\<open>os.path.dirname\<close>: what follows, and what precedes, the last
  slash.\<close>

definition basename :: "string \<Rightarrow> string" where
  "basename p = rev (takeWhile (\<lambda>c. c \<noteq> CHR ''/'') (rev p))"

definition dirname :: "string \<Rightarrow> string" where
  "dirname p = rev (drop 1 (dropWhile (\<lambda>c. c \<noteq> CHR ''/'') (rev p)))"

section \<open>The data processor\<close>

text \<open>The instance fields of \<^verbatim>\<open>DataProcessor\<close>. The batch identifier is drawn once, when
  the object is made.\<close>

record DataProcessor =
  processed_rows :: nat
  total_rows :: nat
  batch_id :: string

definition DataProcessor_init :: "string \<Rightarrow> DataProcessor" where
  "DataProcessor_init uuid4 = \<lparr>processed_rows = 0, total_rows = 0, batch_id = uuid4\<rparr>"

text \<open>The state of the system clock is the number of readings taken so far.\<close>

type_synonym clock = nat

definition now :: "env \<Rightarrow> clock \<Rightarrow> nat \<times> clock" where
  "now pd clk = (datetime_now pd clk, Suc clk)"

definition remove_duplicates :: "dataframe \<Rightarrow> dataframe" where
  "remove_duplicates df = drop_duplicates df"

definition impute_column :: "nat \<Rightarrow> dataframe \<Rightarrow> dataframe" where
  "impute_column j df =
     (let col = column_cells j df in
      if column_dtype j df \<in> {Int64, Float64} then loc_set j (fillna (median col) col) df
      else (case mode col of
              m # _ \<Rightarrow> loc_set j (fillna m col) df
            | [] \<Rightarrow> loc_set j (fillna (Str ''Unknown'') col) df))"

definition handle_missing_values :: "dataframe \<Rightarrow> dataframe" where
  "handle_missing_values df = fold impute_column [0..<length (columns df)] df"

definition provenance_columns :: "string list" where
  "provenance_columns = [''source_file'', ''processing_batch'', ''created_at'', ''updated_at'']"

definition convert_column :: "env \<Rightarrow> nat \<Rightarrow> dataframe \<Rightarrow> dataframe" where
  "convert_column pd j df =
     (if fst (columns df ! j) \<in> set provenance_columns then df
      else
        let df1 = (if column_dtype j df = Object
                   then (let numeric_converted = to_numeric_coerce pd (column_cells j df) in
                         if \<not> list_all (\<lambda>c. c = Null) numeric_converted
                         then loc_set j numeric_converted df else df)
                   else df);
            df2 = (if column_dtype j df1 = Int64
                   then loc_set j (to_numeric_downcast_integer (column_cells j df1)) df1
                   else df1)
        in (if column_dtype j df2 = Float64
            then loc_set j (to_numeric_downcast_float pd (column_cells j df2)) df2
            else df2))"

definition convert_data_types :: "env \<Rightarrow> dataframe \<Rightarrow> dataframe" where
  "convert_data_types pd df = fold (convert_column pd) [0..<length (columns df)] df"

definition clean_data ::
  "env \<Rightarrow> DataProcessor \<Rightarrow> clock \<Rightarrow> dataframe \<Rightarrow> dataframe \<times> DataProcessor \<times> clock" where
  "clean_data pd self clk df =
     (if empty_df df then (df, self, clk)
      else
        let df1 = remove_duplicates df;
            df2 = handle_missing_values df1;
            df3 = convert_data_types pd df2;
            df4 = setitem ''source_file'' Object (Str (basename DOWNLOAD_PATH)) df3;
            df5 = setitem ''processing_batch'' Object (Str (batch_id self)) df4;
            (t1, clk1) = now pd clk;
            df6 = setitem ''created_at'' Datetime64 (Time t1) df5;
            (t2, clk2) = now pd clk1;
            df7 = setitem ''updated_at'' Datetime64 (Time t2) df6
        in (df7, self\<lparr>processed_rows := len df7\<rparr>, clk2))"

record quality_metrics =
  total_records :: int
  valid_records :: int
  null_records :: int
  duplicate_records :: int

definition validate_data :: "dataframe \<Rightarrow> quality_metrics" where
  "validate_data df =
     \<lparr>total_records = int (len df),
      valid_records = int (len (dropna df)),
      null_records = int (isnull_sum_sum df),
      duplicate_records = int (len df) - int (len (drop_duplicates df))\<rparr>"

section \<open>Files and the network\<close>

datatype node = Dir | File string

type_synonym filesystem = "string \<Rightarrow> node option"

text \<open>\<^verbatim>\<open>os.path.exists\<close>\<close>

definition path_exists :: "filesystem \<Rightarrow> string \<Rightarrow> bool" where
  "path_exists f p = (f p \<noteq> None)"

text \<open>\<^verbatim>\<open>os.makedirs(d, exist_ok=True)\<close>\<close>

definition makedirs :: "string \<Rightarrow> filesystem \<Rightarrow> exn + filesystem" where
  "makedirs d f =
     (if d = [] then Inl (FileNotFoundError d)
      else case f d of
             Some (File _) \<Rightarrow> Inl (OSError d)
           | _ \<Rightarrow> Inr (f(d \<mapsto> Dir)))"

text \<open>\<^verbatim>\<open>open(p, 'wb')\<close> creates the file or empties it; writing appends.\<close>

definition open_wb :: "string \<Rightarrow> filesystem \<Rightarrow> exn + filesystem" where
  "open_wb p f = (case f p of Some Dir \<Rightarrow> Inl (OSError p) | _ \<Rightarrow> Inr (f(p \<mapsto> File [])))"

definition write_file :: "string \<Rightarrow> string \<Rightarrow> filesystem \<Rightarrow> filesystem" where
  "write_file p bytes f = (case f p of Some (File old) \<Rightarrow> f(p \<mapsto> File (old @ bytes)) | _ \<Rightarrow> f)"

definition read_file :: "string \<Rightarrow> filesystem \<Rightarrow> exn + string" where
  "read_file p f =
     (case f p of
        None \<Rightarrow> Inl (FileNotFoundError p)
      | Some Dir \<Rightarrow> Inl (OSError p)
      | Some (File bytes) \<Rightarrow> Inr bytes)"

definition endswith :: "string \<Rightarrow> string \<Rightarrow> bool" where
  "endswith p suffix =
     (length suffix \<le> length p \<and> drop (length p - length suffix) p = suffix)"

section \<open>The database\<close>

text \<open>A table has its column names and its rows, each row a list of column-value pairs.
  \<open>to_sql_calls\<close> records, in order, the table and the number of rows of every
  insert that \<^verbatim>\<open>to_sql\<close> has carried out.\<close>

record sql_table =
  table_columns :: "string list"
  table_rows :: "(string \<times> cell) list list"

record database =
  tables :: "string \<Rightarrow> sql_table option"
  to_sql_calls :: "(string \<times> nat) list"

text \<open>\<^verbatim>\<open>INSERT INTO name (...) VALUES (...)\<close> fails when the table is missing or lacks one
  of the columns.\<close>

definition sql_insert :: "string \<Rightarrow> (string \<times> cell) list \<Rightarrow> database \<Rightarrow> exn + database" where
  "sql_insert name row d =
     (case tables d name of
        None \<Rightarrow> Inl (OperationalError (''no such table: '' @ name))
      | Some t \<Rightarrow>
          if list_all (\<lambda>c. c \<in> set (table_columns t)) (map fst row)
          then Inr (d\<lparr>tables := (tables d)(name \<mapsto> t\<lparr>table_rows := table_rows t @ [row]\<rparr>)\<rparr>)
          else Inl (OperationalError (''no such column in table: '' @ name)))"

text \<open>\<^verbatim>\<open>CREATE TABLE IF NOT EXISTS\<close>\<close>

definition create_table_if_not_exists :: "string \<Rightarrow> string list \<Rightarrow> database \<Rightarrow> database" where
  "create_table_if_not_exists name cols d =
     (case tables d name of
        None \<Rightarrow> d\<lparr>tables := (tables d)(name \<mapsto> \<lparr>table_columns = cols, table_rows = []\<rparr>)\<rparr>
      | Some _ \<Rightarrow> d)"

definition processed_data_columns :: "string list" where
  "processed_data_columns =
     [''id'', ''platform_commission_rate'', ''venture_category3_name_en'', ''product_small_img'',
      ''deeplink'', ''availability'', ''image_url_5'', ''number_of_reviews'', ''is_free_shipping'',
      ''promotion_price'', ''venture_category2_name_en'', ''current_price'', ''product_medium_img'',
      ''venture_category1_name_en'', ''brand_name'', ''image_url_4'', ''description'', ''seller_url'',
      ''product_commission_rate'', ''product_name'', ''sku_id'', ''seller_rating'',
      ''bonus_commission_rate'', ''business_type'', ''business_area'', ''image_url_2'',
      ''discount_percentage'', ''seller_name'', ''product_url'', ''product_id'',
      ''venture_category_name_local'', ''rating_avg_value'', ''product_big_img'', ''image_url_3'',
      ''price'', ''created_at'', ''updated_at'', ''source_file'', ''processing_batch'']"

definition processing_log_columns :: "string list" where
  "processing_log_columns =
     [''id'', ''file_name'', ''total_rows'', ''processed_rows'', ''status'', ''started_at'',
      ''completed_at'', ''error_message'', ''processing_time_seconds'']"

definition data_quality_metrics_columns :: "string list" where
  "data_quality_metrics_columns =
     [''id'', ''batch_id'', ''total_records'', ''valid_records'', ''null_records'',
      ''duplicate_records'', ''processing_date'']"

text \<open>The three statements of \<^verbatim>\<open>create_tables\<close>; the indexes it adds carry no data.\<close>

definition create_tables :: "database \<Rightarrow> database" where
  "create_tables d =
     create_table_if_not_exists ''data_quality_metrics'' data_quality_metrics_columns
       (create_table_if_not_exists ''processing_log'' processing_log_columns
          (create_table_if_not_exists ''processed_data'' processed_data_columns d))"

definition table_exists :: "string \<Rightarrow> database \<Rightarrow> bool" where
  "table_exists name d = (tables d name \<noteq> None)"

text \<open>\<^verbatim>\<open>batch_df.to_sql(name, engine, if_exists='append', index=False, method='multi')\<close>:
  one multi-row insert of the whole frame. A missing table is created from the frame's
  columns; an existing one must have every column of the frame.\<close>

definition records :: "dataframe \<Rightarrow> (string \<times> cell) list list" where
  "records df = map (\<lambda>r. zip (map fst (columns df)) r) (rows df)"

definition to_sql :: "dataframe \<Rightarrow> string \<Rightarrow> database \<Rightarrow> exn + database" where
  "to_sql df name d =
     (case tables d name of
        None \<Rightarrow>
          Inr (d\<lparr>tables := (tables d)(name \<mapsto>
                   \<lparr>table_columns = map fst (columns df), table_rows = records df\<rparr>),
                 to_sql_calls := to_sql_calls d @ [(name, len df)]\<rparr>)
      | Some t \<Rightarrow>
          if list_all (\<lambda>c. c \<in> set (table_columns t)) (map fst (columns df))
          then Inr (d\<lparr>tables := (tables d)(name \<mapsto> t\<lparr>table_rows := table_rows t @ records df\<rparr>),
                      to_sql_calls := to_sql_calls d @ [(name, len df)]\<rparr>)
          else Inl (OperationalError (''no such column in table: '' @ name)))"

text \<open>\<^verbatim>\<open>df.iloc[i:j]\<close>\<close>

definition iloc :: "dataframe \<Rightarrow> nat \<Rightarrow> nat \<Rightarrow> dataframe" where
  "iloc df i j = df\<lparr>rows := take (j - i) (drop i (rows df))\<rparr>"

text \<open>The loop of \<^verbatim>\<open>insert_dataframe\<close> over \<^verbatim>\<open>range(0, len(df), batch_size)\<close>, from position
  \<open>i\<close> on; a failing insert raises and leaves the earlier batches in the table.\<close>

function insert_batches ::
  "dataframe \<Rightarrow> string \<Rightarrow> int \<Rightarrow> nat \<Rightarrow> nat \<Rightarrow> database \<Rightarrow> (exn + nat) \<times> database" where
  "insert_batches df table_name batch_size i total_inserted d =
     (if 0 < batch_size \<and> i < len df then
        (let batch_df = iloc df i (i + nat batch_size) in
         case to_sql batch_df table_name d of
           Inl e \<Rightarrow> (Inl e, d)
         | Inr d' \<Rightarrow>
             insert_batches df table_name batch_size (i + nat batch_size)
               (total_inserted + len batch_df) d')
      else (Inr total_inserted, d))"
  by pat_completeness auto
termination
  by (relation "measure (\<lambda>(df, n, b, i, t, d). len df - i)") auto

definition insert_dataframe ::
  "dataframe \<Rightarrow> string \<Rightarrow> int option \<Rightarrow> database \<Rightarrow> (exn + nat) \<times> database" where
  "insert_dataframe df table_name batch_size d =
     (let batch_size = (case batch_size of
                          None \<Rightarrow> BATCH_SIZE
                        | Some b \<Rightarrow> if b = 0 then BATCH_SIZE else b)
      in insert_batches df table_name batch_size 0 0 d)"

text \<open>The two audit writes. The exception of a failing insert is caught inside the method
  and only logged; the method returns normally with the database as it was.\<close>

definition log_processing_status ::
  "string \<Rightarrow> nat \<Rightarrow> nat \<Rightarrow> string \<Rightarrow> string option \<Rightarrow> int option \<Rightarrow> database \<Rightarrow> database" where
  "log_processing_status file_name n_total n_processed status error_message processing_time d =
     (case sql_insert ''processing_log''
             [(''file_name'', Str file_name),
              (''total_rows'', Num (of_nat n_total)),
              (''processed_rows'', Num (of_nat n_processed)),
              (''status'', Str status),
              (''error_message'', case error_message of None \<Rightarrow> Null | Some m \<Rightarrow> Str m),
              (''processing_time_seconds'',
                 case processing_time of None \<Rightarrow> Null | Some t \<Rightarrow> Num (of_int t))] d of
        Inl e \<Rightarrow> d
      | Inr d' \<Rightarrow> d')"

definition log_data_quality_metrics :: "string \<Rightarrow> quality_metrics \<Rightarrow> database \<Rightarrow> database" where
  "log_data_quality_metrics batch m d =
     (case sql_insert ''data_quality_metrics''
             [(''batch_id'', Str batch),
              (''total_records'', Num (of_int (total_records m))),
              (''valid_records'', Num (of_int (valid_records m))),
              (''null_records'', Num (of_int (null_records m))),
              (''duplicate_records'', Num (of_int (duplicate_records m)))] d of
        Inl e \<Rightarrow> d
      | Inr d' \<Rightarrow> d')"

section \<open>The pipeline\<close>

text \<open>The state that a run reads and changes: the fields of the pipeline object (its data
  processor, start and end time), the database behind its manager, the local files, the
  URLs requested over the network so far, and the clock.\<close>

record state =
  data_processor :: DataProcessor
  start_time :: "nat option"
  end_time :: "nat option"
  db :: database
  fs :: filesystem
  requests :: "string list"
  clock :: clock

definition DataProcessingPipeline_init :: "string \<Rightarrow> database \<Rightarrow> filesystem \<Rightarrow> clock \<Rightarrow> state" where
  "DataProcessingPipeline_init uuid4 d f clk =
     \<lparr>data_processor = DataProcessor_init uuid4, start_time = None, end_time = None,
      db = d, fs = f, requests = [], clock = clk\<rparr>"

text \<open>The decorator \<^verbatim>\<open>log_execution_time\<close> reads the clock before the call and once after
  it, whether the call returns or raises, and hands the result on.\<close>

definition log_execution_time :: "env \<Rightarrow> (state \<Rightarrow> 'a \<times> state) \<Rightarrow> state \<Rightarrow> 'a \<times> state" where
  "log_execution_time pd func s =
     (let (t0, c0) = now pd (clock s);
          (result, s1) = func (s\<lparr>clock := c0\<rparr>);
          (t1, c1) = now pd (clock s1)
      in (result, s1\<lparr>clock := c1\<rparr>))"

text \<open>\<^verbatim>\<open>DataProcessor.download_file\<close>: every exception inside is caught and turned into
  the result False; what has been written to the file by then stays.\<close>

definition download_file_body :: "env \<Rightarrow> string \<Rightarrow> string \<Rightarrow> state \<Rightarrow> bool \<times> state" where
  "download_file_body pd url file_path s =
     (case makedirs (dirname file_path) (fs s) of
        Inl e \<Rightarrow> (False, s)
      | Inr f1 \<Rightarrow>
          let s1 = s\<lparr>fs := f1, requests := requests s @ [url]\<rparr> in
          (case requests_get pd url of
             Inl e \<Rightarrow> (False, s1)
           | Inr response \<Rightarrow>
               (case status_error response of
                  Some e \<Rightarrow> (False, s1)
                | None \<Rightarrow>
                    (case open_wb file_path (fs s1) of
                       Inl e \<Rightarrow> (False, s1)
                     | Inr f2 \<Rightarrow>
                         let s2 = s1\<lparr>fs := write_file file_path (concat (content_chunks response)) f2\<rparr>
                         in (case stream_error response of
                               Some e \<Rightarrow> (False, s2)
                             | None \<Rightarrow> (True, s2))))))"

definition download_file :: "env \<Rightarrow> string \<Rightarrow> string \<Rightarrow> state \<Rightarrow> bool \<times> state" where
  "download_file pd url file_path = log_execution_time pd (download_file_body pd url file_path)"

text \<open>\<^verbatim>\<open>pd.concat(chunks, ignore_index=True)\<close> of the chunks of one file: the rows in order
  under the common header; a column whose chunks disagree on the dtype gets the dtype
  that holds them all.\<close>

definition unify_dtype :: "(string \<times> dtype) \<Rightarrow> (string \<times> dtype) \<Rightarrow> (string \<times> dtype)" where
  "unify_dtype a b =
     (if snd a = snd b then a
      else if snd a \<in> {Int64, Float64} \<and> snd b \<in> {Int64, Float64} then (fst a, Float64)
      else (fst a, Object))"

fun concat_frames :: "dataframe list \<Rightarrow> dataframe" where
  "concat_frames [] = DataFrame"
| "concat_frames (c # cs) =
     \<lparr>columns = fold (\<lambda>d acc. map (\<lambda>(a, b). unify_dtype a b) (zip acc (columns d))) cs (columns c),
      rows = concat (map rows (c # cs))\<rparr>"

text \<open>\<^verbatim>\<open>DataProcessor.read_csv_in_chunks\<close>: an exception of the parser is logged and raised
  again; without any chunk the result is the empty frame.\<close>

definition read_csv_in_chunks ::
  "env \<Rightarrow> string \<Rightarrow> int option \<Rightarrow> state \<Rightarrow> (exn + dataframe) \<times> state" where
  "read_csv_in_chunks pd file_path chunk_size s =
     (let chunk_size = (case chunk_size of
                          None \<Rightarrow> CHUNK_SIZE
                        | Some c \<Rightarrow> if c = 0 then CHUNK_SIZE else c);
          compression = (if endswith file_path ''.gz'' then Some ''gzip'' else None)
      in case read_file file_path (fs s) of
           Inl e \<Rightarrow> (Inl e, s)
         | Inr bytes \<Rightarrow>
             (case pd_read_csv pd bytes chunk_size compression of
                Inl e \<Rightarrow> (Inl e, s)
              | Inr chunks \<Rightarrow>
                  if chunks \<noteq> [] then
                    (let combined_df = concat_frames chunks in
                     (Inr combined_df,
                      s\<lparr>data_processor := (data_processor s)\<lparr>total_rows := len combined_df\<rparr>\<rparr>))
                  else (Inr DataFrame, s)))"

text \<open>The steps of \<^verbatim>\<open>DataProcessingPipeline\<close>.\<close>

definition pipeline_download_file :: "env \<Rightarrow> state \<Rightarrow> bool \<times> state" where
  "pipeline_download_file pd s =
     (if path_exists (fs s) DOWNLOAD_PATH then (True, s)
      else download_file pd CSV_URL DOWNLOAD_PATH s)"

definition read_and_process_data :: "env \<Rightarrow> state \<Rightarrow> (exn + dataframe) \<times> state" where
  "read_and_process_data pd s =
     (if \<not> path_exists (fs s) DOWNLOAD_PATH
      then (Inl (FileNotFoundError (''Downloaded file not found: '' @ DOWNLOAD_PATH)), s)
      else case read_csv_in_chunks pd DOWNLOAD_PATH None s of
             (Inl e, s1) \<Rightarrow> (Inl e, s1)
           | (Inr df, s1) \<Rightarrow>
               if empty_df df then (Inl (ValueError ''No data found in CSV file''), s1)
               else (Inr df, s1))"

definition clean_and_transform_data :: "env \<Rightarrow> dataframe \<Rightarrow> state \<Rightarrow> dataframe \<times> state" where
  "clean_and_transform_data pd df s =
     (let (cleaned_df, self, clk) = clean_data pd (data_processor s) (clock s) df
      in (cleaned_df, s\<lparr>data_processor := self, clock := clk\<rparr>))"

definition validate_data_quality :: "dataframe \<Rightarrow> state \<Rightarrow> quality_metrics \<times> state" where
  "validate_data_quality df s =
     (let metrics = validate_data df
      in (metrics, s\<lparr>db := log_data_quality_metrics (batch_id (data_processor s)) metrics (db s)\<rparr>))"

definition store_data_in_database :: "dataframe \<Rightarrow> state \<Rightarrow> (exn + nat) \<times> state" where
  "store_data_in_database df s =
     (let d = (if \<not> table_exists ''processed_data'' (db s) then create_tables (db s) else db s);
          (inserted_rows, d') = insert_dataframe df ''processed_data'' (Some BATCH_SIZE) d
      in (inserted_rows, s\<lparr>db := d'\<rparr>))"

text \<open>\<^verbatim>\<open>_log_processing_results\<close> subtracts the start time from the end time of the
  pipeline object. Python raises a TypeError when the end time is still None.\<close>

definition log_processing_results :: "nat \<Rightarrow> quality_metrics \<Rightarrow> state \<Rightarrow> (exn + unit) \<times> state" where
  "log_processing_results inserted_rows metrics s =
     (case (end_time s, start_time s) of
        (Some e, Some b) \<Rightarrow>
          (Inr (), s\<lparr>db := log_processing_status (basename DOWNLOAD_PATH)
                             (total_rows (data_processor s)) inserted_rows ''completed'' None
                             (Some (int e - int b)) (db s)\<rparr>)
      | _ \<Rightarrow> (Inl (TypeError ''unsupported operand type(s) for -''), s))"

definition log_error :: "string \<Rightarrow> int \<Rightarrow> state \<Rightarrow> state" where
  "log_error error_message processing_time s =
     s\<lparr>db := log_processing_status (basename DOWNLOAD_PATH)
               (total_rows (data_processor s)) (processed_rows (data_processor s)) ''failed''
               (Some error_message) (Some processing_time) (db s)\<rparr>"

record summary =
  summary_batch_id :: string
  summary_total_rows :: nat
  summary_processed_rows :: nat
  processing_time_seconds :: int
  success_rate :: rat
  summary_quality_metrics :: quality_metrics
  status :: string
  summary_start_time :: "nat option"
  summary_end_time :: "nat option"

definition generate_summary :: "nat \<Rightarrow> quality_metrics \<Rightarrow> int \<Rightarrow> state \<Rightarrow> summary" where
  "generate_summary inserted_rows metrics processing_time s =
     \<lparr>summary_batch_id = batch_id (data_processor s),
      summary_total_rows = total_rows (data_processor s),
      summary_processed_rows = inserted_rows,
      processing_time_seconds = processing_time,
      success_rate = (if total_rows (data_processor s) > 0
                      then of_nat inserted_rows / of_nat (total_rows (data_processor s)) * 100
                      else 0),
      summary_quality_metrics = metrics,
      status = ''completed'',
      summary_start_time = start_time s,
      summary_end_time = end_time s\<rparr>"

text \<open>The \<^verbatim>\<open>except\<close> clause of \<^verbatim>\<open>run_pipeline\<close>: take the end time, record the failure,
  raise the exception again.\<close>

definition run_pipeline_except :: "env \<Rightarrow> exn \<Rightarrow> state \<Rightarrow> (exn + summary) \<times> state" where
  "run_pipeline_except pd e s =
     (let (t, c) = now pd (clock s);
          s1 = s\<lparr>end_time := Some t, clock := c\<rparr>;
          processing_time = (case start_time s1 of Some b \<Rightarrow> int t - int b | None \<Rightarrow> 0)
      in (Inl e, log_error (str e) processing_time s1))"

definition run_pipeline_body :: "env \<Rightarrow> state \<Rightarrow> (exn + summary) \<times> state" where
  "run_pipeline_body pd s =
     (let (t, c) = now pd (clock s);
          s0 = s\<lparr>start_time := Some t, clock := c\<rparr>;
          (downloaded, s1) = pipeline_download_file pd s0
      in if \<not> downloaded then run_pipeline_except pd (Exception ''Failed to download CSV file'') s1
         else case read_and_process_data pd s1 of
                (Inl e, s2) \<Rightarrow> run_pipeline_except pd e s2
              | (Inr df, s2) \<Rightarrow>
                  if empty_df df then run_pipeline_except pd (Exception ''No data found in CSV file'') s2
                  else
                    let (cleaned_df, s3) = clean_and_transform_data pd df s2;
                        (metrics, s4) = validate_data_quality cleaned_df s3
                    in case store_data_in_database cleaned_df s4 of
                         (Inl e, s5) \<Rightarrow> run_pipeline_except pd e s5
                       | (Inr inserted_rows, s5) \<Rightarrow>
                           (case log_processing_results inserted_rows metrics s5 of
                              (Inl e, s6) \<Rightarrow> run_pipeline_except pd e s6
                            | (Inr _, s6) \<Rightarrow>
                                let (t2, c2) = now pd (clock s6);
                                    s7 = s6\<lparr>end_time := Some t2, clock := c2\<rparr>
                                in (Inr (generate_summary inserted_rows metrics (int t2 - int t) s7),
                                    s7)))"

definition run_pipeline :: "env \<Rightarrow> state \<Rightarrow> (exn + summary) \<times> state" where
  "run_pipeline pd = log_execution_time pd (run_pipeline_body pd)"

section \<open>Notions used to state the properties\<close>

text \<open>The number of exact-duplicate rows of a table: the rows that repeat an earlier row.\<close>

definition duplicate_count :: "'a list \<Rightarrow> nat" where
  "duplicate_count xs = length (filter (\<lambda>i. xs ! i \<in> set (take i xs)) [0..<length xs])"

text \<open>A table without a missing cell.\<close>

definition no_nulls :: "dataframe \<Rightarrow> bool" where
  "no_nulls df = list_all (\<lambda>r. Null \<notin> set r) (rows df)"

text \<open>The database takes the rows of a frame into a table: the table is absent (and
  \<^verbatim>\<open>to_sql\<close> creates it) or it has every column of the frame.\<close>

definition accepts :: "dataframe \<Rightarrow> string \<Rightarrow> database \<Rightarrow> bool" where
  "accepts df name d =
     (case tables d name of
        None \<Rightarrow> True
      | Some t \<Rightarrow> list_all (\<lambda>c. c \<in> set (table_columns t)) (map fst (columns df)))"

text \<open>The sizes of the batches of \<open>n\<close> rows cut at every \<open>b\<close> rows: full batches and a
  final remainder.\<close>

definition batch_sizes :: "nat \<Rightarrow> nat \<Rightarrow> nat list" where
  "batch_sizes n b = replicate (n div b) b @ (if n mod b = 0 then [] else [n mod b])"

text \<open>Every row of the table carries the value \<open>x\<close> under the column named \<open>n\<close>.\<close>

definition column_const :: "dataframe \<Rightarrow> string \<Rightarrow> cell \<Rightarrow> bool" where
  "column_const df n x = list_all (\<lambda>r. cell_at df n r = Some x) (rows df)"

text \<open>The steps of a run in their order, each taken from the state its predecessor left:
  the state in which the fetch step begins (the decorator and the start time have read the
  clock), the fetch step, the read step, and cleaning, validation and storing of the
  frame \<open>df\<close> that the read step returned.\<close>

definition started :: "env \<Rightarrow> state \<Rightarrow> state" where
  "started pd s =
     s\<lparr>start_time := Some (datetime_now pd (Suc (clock s))), clock := Suc (Suc (clock s))\<rparr>"

definition fetched :: "env \<Rightarrow> state \<Rightarrow> bool \<times> state" where
  "fetched pd s = pipeline_download_file pd (started pd s)"

definition read_step :: "env \<Rightarrow> state \<Rightarrow> (exn + dataframe) \<times> state" where
  "read_step pd s = read_and_process_data pd (snd (fetched pd s))"






section \<open>Concrete inputs\<close>

text \<open>A parser of decimal integer literals, as \<^verbatim>\<open>pd.to_numeric\<close> reads them; every other
  text is not a number for it.\<close>

definition digit_value :: "char \<Rightarrow> nat option" where
  "digit_value c =
     map_of [(CHR ''0'', 0), (CHR ''1'', 1), (CHR ''2'', 2), (CHR ''3'', 3), (CHR ''4'', 4),
             (CHR ''5'', 5), (CHR ''6'', 6), (CHR ''7'', 7), (CHR ''8'', 8), (CHR ''9'', 9)] c"

fun digits_value :: "nat \<Rightarrow> string \<Rightarrow> nat option" where
  "digits_value acc [] = Some acc"
| "digits_value acc (c # cs) =
     (case digit_value c of None \<Rightarrow> None | Some d \<Rightarrow> digits_value (10 * acc + d) cs)"

definition parse_decimal :: "string \<Rightarrow> rat option" where
  "parse_decimal s =
     (case s of
        [] \<Rightarrow> None
      | c # cs \<Rightarrow>
          if c = CHR ''-''
          then (if cs = [] then None else map_option (\<lambda>n. - of_nat n) (digits_value 0 cs))
          else map_option of_nat (digits_value 0 s))"

text \<open>The table of the scenario: two equal rows with an empty \<open>b\<close>, and a third row.\<close>

definition scenario_table :: dataframe where
  "scenario_table =
     \<lparr>columns = [(''a'', Int64), (''b'', Object)],
      rows = [[Num 1, Null], [Num 1, Null], [Num 2, Str ''x'']]\<rparr>"

definition mixed_column_table :: dataframe where
  "mixed_column_table = \<lparr>columns = [(''c'', Object)], rows = [[Str ''1''], [Str ''x'']]\<rparr>"

definition quantity_table :: dataframe where
  "quantity_table =
     \<lparr>columns = [(''sku'', Object), (''qty'', Object)],
      rows = [[Str ''A'', Str ''7''], [Str ''B'', Str ''n/a''], [Str ''C'', Str ''12'']]\<rparr>"

definition header_only_csv :: string where
  "header_only_csv = ''a,b''"

definition scenario_csv :: string where
  "scenario_csv = ''a,b;1,;1,;2,x''"

text \<open>An environment for the examples: exact float32 rounding, a clock that advances by one
  at every reading, a CSV parser that knows the two files above and raises, as pandas does,
  \<^verbatim>\<open>EmptyDataError\<close> on a file of zero bytes, and an unreachable server.\<close>

definition example_env :: env where
  "example_env =
     \<lparr>parse_number = parse_decimal,
      to_float32 = (\<lambda>q. q),
      datetime_now = (\<lambda>k. 1000 + k),
      pd_read_csv = (\<lambda>bytes chunk_size compression.
         if bytes = [] then Inl (EmptyDataError ''No columns to parse from file'')
         else if bytes = header_only_csv
         then Inr [\<lparr>columns = [(''a'', Object), (''b'', Object)], rows = []\<rparr>]
         else if bytes = scenario_csv then Inr [scenario_table]
         else Inl (ParserError ''Error tokenizing data'')),
      requests_get = (\<lambda>url. Inl (RequestException ''Connection refused''))\<rparr>"

definition empty_database :: database where
  "empty_database = \<lparr>tables = (\<lambda>name. None), to_sql_calls = []\<rparr>"

definition loader_frame :: dataframe where
  "loader_frame = \<lparr>columns = [(''price'', Int64)], rows = replicate 2500 [Num 0]\<rparr>"

definition imputed_table :: dataframe where
  "imputed_table =
     \<lparr>columns = [(''a'', Int64), (''b'', Object)],
      rows = [[Num 1, Str ''x''], [Num 2, Str ''x'']]\<rparr>"

definition header_only_state :: state where
  "header_only_state =
     DataProcessingPipeline_init ''batch-1'' empty_database
       ((\<lambda>p. None)(DOWNLOAD_PATH \<mapsto> File header_only_csv)) 0"

text \<open>The same environment with a server that answers and whose stream breaks before the
  first chunk arrives.\<close>

definition broken_stream_env :: env where
  "broken_stream_env =
     example_env\<lparr>requests_get := (\<lambda>url.
        Inr \<lparr>status_error = None, content_chunks = [],
             stream_error = Some (RequestException ''Connection broken'')\<rparr>)\<rparr>"

text \<open>A new pipeline on an empty database: without a local file, with a local file of zero
  bytes, and with the file of the scenario on a database whose tables exist.\<close>

definition no_file_state :: state where
  "no_file_state = DataProcessingPipeline_init ''batch-1'' empty_database (\<lambda>p. None) 0"

definition zero_byte_state :: state where
  "zero_byte_state =
     DataProcessingPipeline_init ''batch-1'' empty_database
       ((\<lambda>p. None)(DOWNLOAD_PATH \<mapsto> File [])) 0"




section \<open>Unfolding the definitions on concrete inputs\<close>

lemmas table_defs = empty_df_def len_def column_dtype_def column_cells_def loc_set_def setitem_def
  drop_duplicates_def dropna_def isnull_sum_sum_def fillna_def numbers_def median_def mode_def
  to_numeric_coerce_def to_numeric_downcast_integer_def to_numeric_downcast_float_def

lemmas clean_defs = clean_data_def remove_duplicates_def handle_missing_values_def
  impute_column_def convert_data_types_def convert_column_def provenance_columns_def now_def
  basename_def DOWNLOAD_PATH_def DataProcessor_init_def

lemmas example_defs = example_env_def scenario_table_def parse_decimal_def digit_value_def

lemmas pipeline_defs = run_pipeline_def log_execution_time_def run_pipeline_body_def
  run_pipeline_except_def pipeline_download_file_def read_and_process_data_def
  read_csv_in_chunks_def read_file_def path_exists_def endswith_def log_error_def now_def
  DataProcessingPipeline_init_def DataProcessor_init_def CHUNK_SIZE_def

lemmas database_defs = create_tables_def create_table_if_not_exists_def empty_database_def
  log_processing_status_def log_data_quality_metrics_def sql_insert_def
  processed_data_columns_def processing_log_columns_def data_quality_metrics_columns_def

lemma scenario_cleaned:
  "fst (clean_data example_env (DataProcessor_init ''batch-1'') 0 scenario_table) =
   \<lparr>columns = [(''a'', Int64), (''b'', Object), (''source_file'', Object),
               (''processing_batch'', Object), (''created_at'', Datetime64),
               (''updated_at'', Datetime64)],
    rows = [[Num 1, Str ''x'', Str ''downloaded_data.csv.gz'', Str ''batch-1'', Time 1000, Time 1001],
            [Num 2, Str ''x'', Str ''downloaded_data.csv.gz'', Str ''batch-1'', Time 1000, Time 1001]]\<rparr>"
  by (simp add: table_defs clean_defs example_defs upt_rec)

section \<open>Deduplication and row counts\<close>

lemma set_dedup_from: "set (dedup_from seen xs) = set xs - set seen"
  by (induction xs arbitrary: seen) auto

lemma distinct_dedup_from: "distinct (dedup_from seen xs)"
  by (induction xs arbitrary: seen) (auto simp: set_dedup_from)

lemma length_dedup_from: "length (dedup_from seen xs) = card (set xs - set seen)"
  using distinct_card[OF distinct_dedup_from, of seen xs] by (simp add: set_dedup_from)

lemma duplicate_count_snoc:
  "duplicate_count (xs @ [x]) = duplicate_count xs + (if x \<in> set xs then 1 else 0)"
proof -
  have "filter (\<lambda>i. (xs @ [x]) ! i \<in> set (take i (xs @ [x]))) [0..<length xs]
      = filter (\<lambda>i. xs ! i \<in> set (take i xs)) [0..<length xs]"
    by (rule filter_cong) (auto simp: nth_append)
  then show ?thesis
    by (simp add: duplicate_count_def)
qed

lemma duplicate_count_card: "duplicate_count xs + card (set xs) = length xs"
proof (induction xs rule: rev_induct)
  case Nil
  show ?case by (simp add: duplicate_count_def)
next
  case (snoc x xs)
  then show ?case
    by (cases "x \<in> set xs") (simp_all add: duplicate_count_snoc insert_absorb)
qed

lemma length_dedup_duplicate_count:
  "length (dedup_from [] xs) = length xs - duplicate_count xs"
  using duplicate_count_card[of xs] by (simp add: length_dedup_from)

lemma columns_loc_set: "columns (loc_set j vs df) = columns df"
  by (simp add: loc_set_def)

lemma len_loc_set: "length vs = len df \<Longrightarrow> len (loc_set j vs df) = len df"
  by (simp add: loc_set_def len_def)

lemma length_column_cells: "length (column_cells j df) = len df"
  by (simp add: column_cells_def len_def)

lemma length_fillna: "length (fillna v cs) = length cs"
  by (simp add: fillna_def)

lemma length_downcast_float: "length (to_numeric_downcast_float pd cs) = length cs"
  by (simp add: to_numeric_downcast_float_def)

lemma column_dtype_loc_set: "column_dtype j (loc_set i vs df) = column_dtype j df"
  by (simp add: column_dtype_def columns_loc_set)

lemmas frame_facts = columns_loc_set column_dtype_loc_set length_column_cells length_fillna
  length_downcast_float

lemma len_impute_column: "len (impute_column j df) = len df"
  by (simp add: impute_column_def Let_def len_loc_set frame_facts split: list.splits)

lemma columns_impute_column: "columns (impute_column j df) = columns df"
  by (simp add: impute_column_def Let_def frame_facts split: list.splits)

lemma len_fold_impute: "len (fold impute_column js df) = len df"
  by (induction js arbitrary: df) (simp_all add: len_impute_column)

lemma len_handle_missing_values: "len (handle_missing_values df) = len df"
  by (simp add: handle_missing_values_def len_fold_impute)

lemma len_convert_column: "len (convert_column pd j df) = len df"
  by (simp add: convert_column_def Let_def len_loc_set to_numeric_coerce_def
      to_numeric_downcast_integer_def frame_facts)

lemma columns_convert_column: "columns (convert_column pd j df) = columns df"
  by (simp add: convert_column_def Let_def frame_facts)

lemma len_fold_convert: "len (fold (convert_column pd) js df) = len df"
  by (induction js arbitrary: df) (simp_all add: len_convert_column)

lemma len_convert_data_types: "len (convert_data_types pd df) = len df"
  by (simp add: convert_data_types_def len_fold_convert)

lemma len_setitem: "len (setitem n dt v df) = len df"
  by (simp add: setitem_def len_def split: option.splits)

text \<open>
  C4. For every non-empty input table, the cleaned batch has as many rows as the table has
  after deduplication, that is the original row count minus the number of rows that repeat
  an earlier row; the imputation step and the type-coercion step leave the row count as
  it is.
\<close>

theorem clean_data_row_count:
  assumes "\<not> empty_df df"
  shows "len (fst (clean_data pd self clk df)) = len df - duplicate_count (rows df)
       \<and> len (fst (clean_data pd self clk df)) = len (remove_duplicates df)
       \<and> len (handle_missing_values (remove_duplicates df)) = len (remove_duplicates df)
       \<and> len (convert_data_types pd (handle_missing_values (remove_duplicates df)))
           = len (remove_duplicates df)"
proof -
  have a: "len (remove_duplicates df) = len df - duplicate_count (rows df)"
    by (simp add: remove_duplicates_def drop_duplicates_def len_def length_dedup_duplicate_count)
  have b: "len (fst (clean_data pd self clk df)) = len (remove_duplicates df)"
    using assms
    by (simp add: clean_data_def Let_def now_def len_setitem len_convert_data_types
        len_handle_missing_values)
  show ?thesis using a b by (simp add: len_convert_data_types len_handle_missing_values)
qed

theorem clean_data_row_count_witness:
  "\<not> empty_df scenario_table
   \<and> len scenario_table = 3
   \<and> duplicate_count (rows scenario_table) = 1
   \<and> len (fst (clean_data example_env (DataProcessor_init ''batch-1'') 0 scenario_table)) = 2"
proof -
  have ne: "\<not> empty_df scenario_table"
    by (simp add: empty_df_def scenario_table_def)
  have n: "len scenario_table = 3"
    by (simp add: len_def scenario_table_def)
  have d: "duplicate_count (rows scenario_table) = 1"
    by (simp add: duplicate_count_def scenario_table_def upt_rec)
  from clean_data_row_count[OF ne, of example_env "DataProcessor_init ''batch-1''" 0] n d ne
  show ?thesis by simp
qed

section \<open>Imputation on a table without missing cells\<close>

lemma fill_row_no_null: "Null \<notin> set r \<Longrightarrow> r[j := (if r ! j = Null then v else r ! j)] = r"
proof (cases "j < length r")
  case True
  assume "Null \<notin> set r"
  with True have "r ! j \<noteq> Null" using nth_mem by metis
  then show ?thesis by simp
next
  case False
  then show ?thesis by (simp add: list_update_beyond not_less)
qed

lemma loc_set_fillna_no_nulls:
  assumes "no_nulls df"
  shows "loc_set j (fillna v (column_cells j df)) df = df"
proof -
  have "list_all (\<lambda>r. Null \<notin> set r) rs \<Longrightarrow>
        map (\<lambda>(r, c). r[j := c])
          (zip rs (map (\<lambda>c. if c = Null then v else c) (map (\<lambda>r. r ! j) rs))) = rs"
    for rs :: "cell list list"
    by (induction rs) (simp_all add: fill_row_no_null)
  with assms show ?thesis
    by (simp add: loc_set_def fillna_def column_cells_def no_nulls_def)
qed

lemma impute_column_no_nulls: "no_nulls df \<Longrightarrow> impute_column j df = df"
  by (simp add: impute_column_def Let_def loc_set_fillna_no_nulls split: list.splits)

lemma fold_impute_no_nulls: "no_nulls df \<Longrightarrow> fold impute_column js df = df"
  by (induction js) (simp_all add: impute_column_no_nulls)

text \<open>
  C9. Imputation is idempotent on imputed batches: on every table that has no missing cell,
  running the imputation step again returns the table unchanged.
\<close>

theorem handle_missing_values_no_nulls:
  "no_nulls df \<Longrightarrow> handle_missing_values df = df"
  by (simp add: handle_missing_values_def fold_impute_no_nulls)

theorem handle_missing_values_no_nulls_witness:
  "no_nulls imputed_table \<and> handle_missing_values imputed_table = imputed_table"
proof -
  have h: "no_nulls imputed_table"
    by (simp add: no_nulls_def imputed_table_def)
  from handle_missing_values_no_nulls[OF h] h show ?thesis by simp
qed

section \<open>Cleaning an empty table\<close>

text \<open>
  C10. Given an empty table (no rows, or no columns), the cleaning stage returns its input
  unchanged: nothing is deduplicated, imputed or coerced, none of the four provenance
  columns is added, and neither the processor's counters nor the clock are touched.
\<close>

theorem clean_data_empty:
  "empty_df df \<Longrightarrow> clean_data pd self clk df = (df, self, clk)"
  by (simp add: clean_data_def)

theorem clean_data_empty_witness:
  "empty_df \<lparr>columns = [(''a'', Object), (''b'', Object)], rows = []\<rparr>
   \<and> clean_data example_env (DataProcessor_init ''batch-1'') 0
        \<lparr>columns = [(''a'', Object), (''b'', Object)], rows = []\<rparr>
      = (\<lparr>columns = [(''a'', Object), (''b'', Object)], rows = []\<rparr>,
         DataProcessor_init ''batch-1'', 0)"
proof -
  have h: "empty_df \<lparr>columns = [(''a'', Object), (''b'', Object)], rows = []\<rparr>"
    by (simp add: empty_df_def)
  from clean_data_empty[OF h] h show ?thesis by simp
qed

section \<open>The fetcher\<close>

text \<open>
  C7. When the destination path already exists, the fetcher step returns success at once:
  the state is left as it was, so no request goes out over the network and the file is
  neither checked nor refreshed.
\<close>

theorem download_skipped_when_present:
  "path_exists (fs s) DOWNLOAD_PATH \<Longrightarrow>
     pipeline_download_file pd s = (True, s)
     \<and> requests (snd (pipeline_download_file pd s)) = requests s
     \<and> fs (snd (pipeline_download_file pd s)) = fs s"
  by (simp add: pipeline_download_file_def)

theorem download_skipped_when_present_witness:
  "path_exists (fs header_only_state) DOWNLOAD_PATH
   \<and> pipeline_download_file example_env header_only_state = (True, header_only_state)
   \<and> requests (snd (pipeline_download_file example_env header_only_state)) = []"
proof -
  have h: "path_exists (fs header_only_state) DOWNLOAD_PATH"
    by (simp add: path_exists_def header_only_state_def DataProcessingPipeline_init_def)
  have r: "requests header_only_state = []"
    by (simp add: header_only_state_def DataProcessingPipeline_init_def)
  from download_skipped_when_present[OF h, of example_env] h r show ?thesis by simp
qed

section \<open>The loader\<close>

lemma batch_sizes_step:
  assumes "0 < m" "0 < b"
  shows "batch_sizes m b = min b m # batch_sizes (m - b) b"
proof (cases "m < b")
  case True
  with assms show ?thesis by (simp add: batch_sizes_def)
next
  case False
  then have "m div b = Suc ((m - b) div b)" "m mod b = (m - b) mod b"
    using assms by (simp_all add: le_div_geq le_mod_geq)
  with False show ?thesis by (simp add: batch_sizes_def)
qed

lemma batch_sizes_0: "batch_sizes 0 b = []"
  by (simp add: batch_sizes_def)

lemma ceil_div:
  fixes n b :: nat
  assumes "0 < b"
  shows "(n + b - 1) div b = n div b + (if n mod b = 0 then 0 else 1)"
proof -
  define q where "q = n div b"
  define r where "r = n mod b"
  have n: "n = b * q + r" and r: "r < b" using assms by (simp_all add: q_def r_def)
  show ?thesis
  proof (cases "r = 0")
    case True
    have "(n + b - 1) div b = q"
    proof (rule div_nat_eqI)
      show "b * q \<le> n + b - 1" using n assms by simp
      show "n + b - 1 < b * Suc q" using n True assms by simp
    qed
    then show ?thesis using True by (simp add: q_def r_def)
  next
    case False
    have "(n + b - 1) div b = Suc q"
    proof (rule div_nat_eqI)
      show "b * Suc q \<le> n + b - 1" using n False by simp
      show "n + b - 1 < b * Suc (Suc q)" using n r by simp
    qed
    then show ?thesis using False by (simp add: q_def r_def)
  qed
qed

lemma length_batch_sizes: "0 < b \<Longrightarrow> length (batch_sizes n b) = (n + b - 1) div b"
  using ceil_div[of b n] by (simp add: batch_sizes_def)

lemma sum_list_batch_sizes: "sum_list (batch_sizes n b) = n"
  using div_mult_mod_eq[of n b] by (auto simp: batch_sizes_def sum_list_replicate)

declare insert_batches.simps [simp del]

lemma insert_batches_stop:
  "\<not> (0 < b \<and> i < len df) \<Longrightarrow> insert_batches df name b i t d = (Inr t, d)"
  by (subst insert_batches.simps) auto


lemma accepts_to_sql:
  assumes "accepts df name d" "columns bdf = columns df"
  shows "\<exists>d'. to_sql bdf name d = Inr d' \<and> accepts df name d'
            \<and> to_sql_calls d' = to_sql_calls d @ [(name, len bdf)]"
  using assms by (auto simp: to_sql_def accepts_def list_all_iff split: option.splits)

lemma insert_batches_ok:
  assumes "0 < b" "accepts df name d"
  shows "\<exists>d'. insert_batches df name (int b) i t d = (Inr (t + (len df - i)), d')
            \<and> to_sql_calls d' = to_sql_calls d @ map (Pair name) (batch_sizes (len df - i) b)"
  using assms
proof (induction df name "int b" i t d rule: insert_batches.induct)
  case (1 df name i t d)
  show ?case
  proof (cases "i < len df")
    case False
    then show ?thesis by (simp add: insert_batches_stop batch_sizes_0)
  next
    case True
    define bdf where "bdf = iloc df i (i + nat (int b))"
    have cols: "columns bdf = columns df" by (simp add: bdf_def iloc_def)
    have lb: "len bdf = min b (len df - i)" by (simp add: bdf_def iloc_def len_def)
    from accepts_to_sql[OF "1.prems"(2) cols] obtain d1 where
      d1: "to_sql bdf name d = Inr d1" "accepts df name d1"
          "to_sql_calls d1 = to_sql_calls d @ [(name, len bdf)]" by blast
    have cond: "0 < int b \<and> i < len df" using True "1.prems"(1) by simp
    from "1.hyps"[OF cond bdf_def d1(1) "1.prems"(1) d1(2)]
    obtain d' where d': "insert_batches df name (int b) (i + nat (int b)) (t + len bdf) d1
         = (Inr (t + len bdf + (len df - (i + nat (int b)))), d')"
       "to_sql_calls d' = to_sql_calls d1
          @ map (Pair name) (batch_sizes (len df - (i + nat (int b))) b)"
      by blast
    have step: "batch_sizes (len df - i) b = min b (len df - i) # batch_sizes (len df - i - b) b"
      using True "1.prems"(1) by (intro batch_sizes_step) auto
    have unfold: "insert_batches df name (int b) i t d
        = insert_batches df name (int b) (i + nat (int b)) (t + len bdf) d1"
      using cond d1(1) by (subst insert_batches.simps) (simp add: Let_def bdf_def)
    have total: "t + len bdf + (len df - (i + nat (int b))) = t + (len df - i)"
      using True by (simp add: lb)
    have calls: "to_sql_calls d' = to_sql_calls d @ map (Pair name) (batch_sizes (len df - i) b)"
      using d'(2) d1(3) step by (simp add: lb)
    show ?thesis using unfold d'(1) total calls by simp
  qed
qed

text \<open>
  C6. For a table of \<open>n\<close> rows and a batch size \<open>b > 0\<close>, on a database that takes the
  rows, the loader reports \<open>n\<close> inserted rows and carries out exactly \<open>\<lceil>n / b\<rceil>\<close> inserts:
  \<open>n div b\<close> of size \<open>b\<close>, followed by one of size \<open>n mod b\<close> when that is not zero, whose
  sizes add up to \<open>n\<close>.
\<close>

theorem insert_dataframe_batches:
  assumes "0 < b" "accepts df name d"
  shows "fst (insert_dataframe df name (Some (int b)) d) = Inr (len df)
       \<and> to_sql_calls (snd (insert_dataframe df name (Some (int b)) d))
           = to_sql_calls d
             @ map (Pair name)
                 (replicate (len df div b) b @ (if len df mod b = 0 then [] else [len df mod b]))
       \<and> length (to_sql_calls (snd (insert_dataframe df name (Some (int b)) d)))
           = length (to_sql_calls d) + (len df + b - 1) div b
       \<and> sum_list (replicate (len df div b) b @ (if len df mod b = 0 then [] else [len df mod b]))
           = len df"
proof -
  from insert_batches_ok[OF assms, of 0 0] obtain d' where
    d': "insert_batches df name (int b) 0 0 d = (Inr (len df), d')"
        "to_sql_calls d' = to_sql_calls d @ map (Pair name) (batch_sizes (len df) b)"
    by auto
  have run: "insert_dataframe df name (Some (int b)) d = (Inr (len df), d')"
    using assms(1) d'(1) by (simp add: insert_dataframe_def)
  have count: "length (to_sql_calls d') = length (to_sql_calls d) + (len df + b - 1) div b"
    using d'(2) length_batch_sizes[OF assms(1), of "len df"] by simp
  show ?thesis
    using run d'(2) count sum_list_batch_sizes[of "len df" b]
    by (simp add: batch_sizes_def)
qed

theorem insert_dataframe_batches_witness:
  "0 < (1000 :: nat)
   \<and> accepts loader_frame ''processed_data'' (create_tables empty_database)
   \<and> len loader_frame = 2500
   \<and> fst (insert_dataframe loader_frame ''processed_data'' (Some 1000)
            (create_tables empty_database)) = Inr 2500
   \<and> to_sql_calls (snd (insert_dataframe loader_frame ''processed_data'' (Some 1000)
                          (create_tables empty_database)))
       = [(''processed_data'', 1000), (''processed_data'', 1000), (''processed_data'', 500)]"
proof -
  have b: "0 < (1000 :: nat)" by simp
  have a: "accepts loader_frame ''processed_data'' (create_tables empty_database)"
    by (simp add: accepts_def loader_frame_def create_tables_def create_table_if_not_exists_def
        empty_database_def processed_data_columns_def)
  have n: "len loader_frame = 2500"
    by (simp add: len_def loader_frame_def)
  have c: "to_sql_calls (create_tables empty_database) = []"
    by (simp add: create_tables_def create_table_if_not_exists_def empty_database_def)
  have r: "replicate 2 (1000 :: nat) = [1000, 1000]"
    by (simp add: numeral_2_eq_2)
  from insert_dataframe_batches[OF b a] a n c r show ?thesis by simp
qed

section \<open>The quality metrics\<close>

lemma duplicate_count_le: "duplicate_count xs \<le> length xs"
  using duplicate_count_card[of xs] by simp

text \<open>
  C1, as the code has it. The validator measures the table it is given, and the pipeline
  gives it the cleaned batch: \<open>duplicate_records\<close> is the number of rows of the cleaned
  batch that repeat an earlier row of that batch, not the number of rows that the cleaning
  stage removed from the raw table. For the source of the scenario the metrics are
  total 2, valid 2, null 0 and duplicate 0.
\<close>

theorem duplicate_records_of_cleaned_batch:
  "duplicate_records (validate_data df) = int (duplicate_count (rows df))
   \<and> fst (validate_data_quality df s) = validate_data df
   \<and> validate_data (fst (clean_data example_env (DataProcessor_init ''batch-1'') 0 scenario_table))
       = \<lparr>total_records = 2, valid_records = 2, null_records = 0, duplicate_records = 0\<rparr>"
proof -
  have "duplicate_records (validate_data df) = int (duplicate_count (rows df))"
    using duplicate_count_le[of "rows df"]
    by (simp add: validate_data_def len_def drop_duplicates_def length_dedup_duplicate_count)
  moreover have "fst (validate_data_quality df s) = validate_data df"
    by (simp add: validate_data_quality_def Let_def)
  moreover have "validate_data (fst (clean_data example_env (DataProcessor_init ''batch-1'') 0 scenario_table))
       = \<lparr>total_records = 2, valid_records = 2, null_records = 0, duplicate_records = 0\<rparr>"
    by (simp add: scenario_cleaned) (simp add: validate_data_def table_defs)
  ultimately show ?thesis by simp
qed

text \<open>
  C1 as stated fails on the scenario: deduplication removes one row of the raw table, and the
  validator reports no duplicate for the cleaned batch.
\<close>

theorem duplicate_records_scenario_counterexample:
  "duplicate_records
      (validate_data (fst (clean_data example_env (DataProcessor_init ''batch-1'') 0 scenario_table))) = 0
   \<and> int (len scenario_table) - int (len (remove_duplicates scenario_table)) = 1
   \<and> duplicate_records
      (validate_data (fst (clean_data example_env (DataProcessor_init ''batch-1'') 0 scenario_table)))
     \<noteq> int (len scenario_table) - int (len (remove_duplicates scenario_table))"
proof -
  have a: "duplicate_records
      (validate_data (fst (clean_data example_env (DataProcessor_init ''batch-1'') 0 scenario_table))) = 0"
    by (simp add: scenario_cleaned) (simp add: validate_data_def table_defs)
  have b: "int (len scenario_table) - int (len (remove_duplicates scenario_table)) = 1"
    by (simp add: remove_duplicates_def table_defs scenario_table_def)
  show ?thesis using a b by simp
qed

section \<open>Type coercion\<close>

lemma map_nth_update_other:
  "i \<noteq> j \<Longrightarrow> length vs = length rs \<Longrightarrow>
   map (\<lambda>r. r ! j) (map (\<lambda>(r, v). r[i := v]) (zip rs vs)) = map (\<lambda>r. r ! j) rs"
  by (induction rs vs rule: list_induct2') simp_all

lemma map_nth_update_same:
  "list_all (\<lambda>r. j < length r) rs \<Longrightarrow> length vs = length rs \<Longrightarrow>
   map (\<lambda>r. r ! j) (map (\<lambda>(r, v). r[j := v]) (zip rs vs)) = vs"
  by (induction rs vs rule: list_induct2') simp_all

lemma column_cells_loc_set_other:
  "i \<noteq> j \<Longrightarrow> length vs = len df \<Longrightarrow> column_cells j (loc_set i vs df) = column_cells j df"
  using map_nth_update_other[of i j vs "rows df"]
  by (simp add: column_cells_def loc_set_def len_def)

lemma column_cells_loc_set_same:
  "well_formed df \<Longrightarrow> j < length (columns df) \<Longrightarrow> length vs = len df \<Longrightarrow>
   column_cells j (loc_set j vs df) = vs"
proof -
  assume wf: "well_formed df" and j: "j < length (columns df)" and l: "length vs = len df"
  have "list_all (\<lambda>r. j < length r) (rows df)"
    using wf j by (simp add: well_formed_def list_all_iff)
  then show ?thesis using l map_nth_update_same[of j "rows df" vs]
    by (simp add: column_cells_def loc_set_def len_def)
qed

lemma well_formed_loc_set: "well_formed df \<Longrightarrow> well_formed (loc_set j vs df)"
  by (auto simp: well_formed_def loc_set_def list_all_iff dest: set_zip_leftD)

lemma well_formed_convert_column: "well_formed df \<Longrightarrow> well_formed (convert_column pd i df)"
  by (simp add: convert_column_def Let_def well_formed_loc_set)

lemma column_cells_convert_other:
  "i \<noteq> j \<Longrightarrow> column_cells j (convert_column pd i df) = column_cells j df"
  by (simp add: convert_column_def Let_def column_cells_loc_set_other len_loc_set
      to_numeric_coerce_def to_numeric_downcast_integer_def frame_facts)

lemma column_cells_convert_object:
  assumes "well_formed df" "j < length (columns df)"
    "fst (columns df ! j) \<notin> set provenance_columns" "column_dtype j df = Object"
  shows "column_cells j (convert_column pd j df) =
           (if list_all (\<lambda>c. coerce_cell pd c = Null) (column_cells j df) then column_cells j df
            else map (coerce_cell pd) (column_cells j df))"
  using assms
  by (simp add: convert_column_def Let_def to_numeric_coerce_def list.pred_map comp_def
      column_cells_loc_set_same frame_facts)

lemma fold_convert_object:
  assumes "well_formed df" "j < length (columns df)"
    "fst (columns df ! j) \<notin> set provenance_columns" "column_dtype j df = Object" "distinct js"
  shows "column_cells j (fold (convert_column pd) js df) =
           (if j \<in> set js
            then (if list_all (\<lambda>c. coerce_cell pd c = Null) (column_cells j df) then column_cells j df
                  else map (coerce_cell pd) (column_cells j df))
            else column_cells j df)"
  using assms
proof (induction js arbitrary: df)
  case Nil
  then show ?case by simp
next
  case (Cons i js)
  let ?df = "convert_column pd i df"
  have wf: "well_formed ?df" using Cons.prems(1) by (rule well_formed_convert_column)
  have cols: "columns ?df = columns df" by (rule columns_convert_column)
  have dt: "column_dtype j ?df = Object" using Cons.prems(4) by (simp add: column_dtype_def cols)
  have d: "distinct js" using Cons.prems(5) by simp
  have IH: "column_cells j (fold (convert_column pd) js ?df) =
           (if j \<in> set js
            then (if list_all (\<lambda>c. coerce_cell pd c = Null) (column_cells j ?df) then column_cells j ?df
                  else map (coerce_cell pd) (column_cells j ?df))
            else column_cells j ?df)"
    using Cons.IH[OF wf _ _ dt d] Cons.prems(2,3) by (simp add: cols)
  show ?case
  proof (cases "i = j")
    case True
    then have "j \<notin> set js" using Cons.prems(5) by simp
    with IH True column_cells_convert_object[OF Cons.prems(1-4)] show ?thesis by simp
  next
    case False
    with IH column_cells_convert_other[OF False] show ?thesis by simp
  qed
qed

text \<open>
  C2, as the code has it. For a text (object) column that is not a provenance column, the
  coercion step takes over the numeric conversion as soon as one cell converts, and leaves
  the column alone only when no cell converts. When it takes the conversion over, every
  cell that converts holds its number and every other cell is missing afterwards.
\<close>

theorem convert_data_types_object_column:
  assumes "well_formed df" "j < length (columns df)"
    "fst (columns df ! j) \<notin> set provenance_columns" "column_dtype j df = Object"
  shows "column_cells j (convert_data_types pd df) =
           (if list_all (\<lambda>c. coerce_cell pd c = Null) (column_cells j df) then column_cells j df
            else map (coerce_cell pd) (column_cells j df))"
  using fold_convert_object[OF assms, of "[0..<length (columns df)]" pd] assms(2)
  by (simp add: convert_data_types_def)

theorem convert_data_types_object_column_witness:
  "well_formed quantity_table \<and> 1 < length (columns quantity_table)
   \<and> fst (columns quantity_table ! 1) \<notin> set provenance_columns
   \<and> column_dtype 1 quantity_table = Object
   \<and> column_cells 1 quantity_table = [Str ''7'', Str ''n/a'', Str ''12'']
   \<and> column_cells 1 (convert_data_types example_env quantity_table) = [Num 7, Null, Num 12]"
proof -
  have wf: "well_formed quantity_table"
    by (simp add: well_formed_def quantity_table_def)
  have j: "1 < length (columns quantity_table)"
    by (simp add: quantity_table_def)
  have p: "fst (columns quantity_table ! 1) \<notin> set provenance_columns"
    by (simp add: quantity_table_def provenance_columns_def)
  have d: "column_dtype 1 quantity_table = Object"
    by (simp add: column_dtype_def quantity_table_def)
  have c: "column_cells 1 quantity_table = [Str ''7'', Str ''n/a'', Str ''12'']"
    by (simp add: column_cells_def quantity_table_def)
  from convert_data_types_object_column[OF wf j p d, of example_env] wf j p d c
  show ?thesis by (simp add: example_env_def parse_decimal_def digit_value_def)
qed

text \<open>
  C2 as stated fails on a column with the texts 1 and x: the column does not convert as
  a whole, the conversion is taken over all the same, and the cell x, which was not
  missing, is missing afterwards.
\<close>

theorem convert_data_types_mixed_counterexample:
  "column_cells 0 mixed_column_table = [Str ''1'', Str ''x'']
   \<and> coerce_cell example_env (Str ''x'') = Null
   \<and> column_cells 0 (convert_data_types example_env mixed_column_table) = [Num 1, Null]"
  by (simp add: mixed_column_table_def table_defs clean_defs example_defs upt_rec)

section \<open>Provenance columns\<close>

lemma find_column_Some: "find_column n cs = Some j \<Longrightarrow> j < length cs \<and> fst (cs ! j) = n"
  by (induction cs arbitrary: j) (auto split: if_splits)

lemma find_column_None: "find_column n cs = None \<longleftrightarrow> n \<notin> set (map fst cs)"
  by (induction cs) auto

lemma find_column_update_same:
  "find_column m cs = Some j \<Longrightarrow> find_column m (cs[j := (m, dt)]) = Some j"
  by (induction cs arbitrary: j) (auto split: if_splits)

lemma find_column_update_other:
  "find_column m cs = Some j \<Longrightarrow> n \<noteq> m \<Longrightarrow> find_column n (cs[j := (m, dt)]) = find_column n cs"
  by (induction cs arbitrary: j) (auto split: if_splits)

lemma find_column_append_other:
  "n \<noteq> m \<Longrightarrow> find_column n (cs @ [(m, dt)]) = find_column n cs"
  by (induction cs) auto

lemma find_column_append_new:
  "find_column m cs = None \<Longrightarrow> find_column m (cs @ [(m, dt)]) = Some (length cs)"
  by (induction cs) (auto split: if_splits)

lemma map_fst_update_same:
  "j < length cs \<Longrightarrow> fst (cs ! j) = n \<Longrightarrow> map fst (cs[j := (n, dt)]) = map fst cs"
  by (simp add: map_update list_update_same_conv)

lemma setitem_None:
  "find_column n (columns df) = None \<Longrightarrow>
   setitem n dt v df = \<lparr>columns = columns df @ [(n, dt)], rows = map (\<lambda>r. r @ [v]) (rows df)\<rparr>"
  by (simp add: setitem_def)

lemma setitem_Some:
  "find_column n (columns df) = Some j \<Longrightarrow>
   setitem n dt v df = \<lparr>columns = (columns df)[j := (n, dt)], rows = map (\<lambda>r. r[j := v]) (rows df)\<rparr>"
  by (simp add: setitem_def)

lemma well_formed_setitem: "well_formed df \<Longrightarrow> well_formed (setitem n dt v df)"
proof (cases "find_column n (columns df)")
  case None
  assume wf: "well_formed df"
  have "n \<notin> set (map fst (columns df))" using None by (simp add: find_column_None)
  with wf show ?thesis
    by (auto simp: setitem_None[OF None] well_formed_def list_all_iff)
next
  case (Some j)
  assume "well_formed df"
  with find_column_Some[OF Some] show ?thesis
    by (auto simp: setitem_Some[OF Some] well_formed_def map_fst_update_same list_all_iff)
qed

lemma setitem_sets: 
  assumes "well_formed df"
  shows "column_const (setitem n dt v df) n v"
proof (cases "find_column n (columns df)")
  case None
  have "(r @ [v]) ! length (columns df) = v" if "r \<in> set (rows df)" for r
  proof -
    have "length r = length (columns df)"
      using assms that by (simp add: well_formed_def list_all_iff)
    then show ?thesis by (metis nth_append_length)
  qed
  with assms show ?thesis
    by (auto simp: setitem_None[OF None] column_const_def cell_at_def well_formed_def list_all_iff
        find_column_append_new[OF None])
next
  case (Some j)
  with assms find_column_Some[OF Some] show ?thesis
    by (auto simp: setitem_Some[OF Some] column_const_def cell_at_def well_formed_def list_all_iff
        find_column_update_same[OF Some])
qed

lemma setitem_keeps:
  assumes "well_formed df" "n \<noteq> m" "column_const df n x"
  shows "column_const (setitem m dt v df) n x"
  unfolding column_const_def list_all_iff
proof
  fix r' assume r': "r' \<in> set (rows (setitem m dt v df))"
  show "cell_at (setitem m dt v df) n r' = Some x"
  proof (cases "find_column m (columns df)")
    case None
    from r' obtain r where r: "r \<in> set (rows df)" "r' = r @ [v]"
      by (auto simp: setitem_None[OF None])
    from assms(3) r(1) obtain k where k: "find_column n (columns df) = Some k" "k < length r" "r ! k = x"
      by (auto simp: column_const_def cell_at_def list_all_iff split: option.splits if_splits)
    show ?thesis
      using k r(2) assms(2)
      by (simp add: setitem_None[OF None] cell_at_def find_column_append_other nth_append)
  next
    case (Some j)
    from r' obtain r where r: "r \<in> set (rows df)" "r' = r[j := v]"
      by (auto simp: setitem_Some[OF Some])
    from assms(3) r(1) obtain k where k: "find_column n (columns df) = Some k" "k < length r" "r ! k = x"
      by (auto simp: column_const_def cell_at_def list_all_iff split: option.splits if_splits)
    have "k \<noteq> j" using find_column_Some[OF Some] find_column_Some[OF k(1)] assms(2) by auto
    then show ?thesis
      using k r(2) assms(2)
      by (simp add: setitem_Some[OF Some] cell_at_def find_column_update_other[OF Some])
  qed
qed

lemma well_formed_remove_duplicates: "well_formed df \<Longrightarrow> well_formed (remove_duplicates df)"
  by (auto simp: well_formed_def remove_duplicates_def drop_duplicates_def list_all_iff set_dedup_from)

lemma well_formed_impute_column: "well_formed df \<Longrightarrow> well_formed (impute_column j df)"
  by (simp add: impute_column_def Let_def well_formed_loc_set split: list.splits)

lemma well_formed_handle_missing_values: "well_formed df \<Longrightarrow> well_formed (handle_missing_values df)"
proof -
  have "well_formed d \<Longrightarrow> well_formed (fold impute_column js d)" for js d
    by (induction js arbitrary: d) (simp_all add: well_formed_impute_column)
  then show "well_formed df \<Longrightarrow> well_formed (handle_missing_values df)"
    by (simp add: handle_missing_values_def)
qed

lemma well_formed_convert_data_types: "well_formed df \<Longrightarrow> well_formed (convert_data_types pd df)"
proof -
  have "well_formed d \<Longrightarrow> well_formed (fold (convert_column pd) js d)" for js d
    by (induction js arbitrary: d) (simp_all add: well_formed_convert_column)
  then show "well_formed df \<Longrightarrow> well_formed (convert_data_types pd df)"
    by (simp add: convert_data_types_def)
qed

text \<open>
  C5, as the code has it. In the cleaned batch of a non-empty, well-formed table every row
  carries the same source file name, the same batch identifier, the same creation
  timestamp and the same update timestamp. The two timestamps are two successive readings
  of the clock, taken during cleaning: the creation timestamp is the first reading and the
  update timestamp the second.
\<close>

theorem provenance_uniform:
  assumes "well_formed df" "\<not> empty_df df"
  shows "column_const (fst (clean_data pd self clk df)) ''source_file'' (Str (basename DOWNLOAD_PATH))
       \<and> column_const (fst (clean_data pd self clk df)) ''processing_batch'' (Str (batch_id self))
       \<and> column_const (fst (clean_data pd self clk df)) ''created_at'' (Time (datetime_now pd clk))
       \<and> column_const (fst (clean_data pd self clk df)) ''updated_at''
           (Time (datetime_now pd (Suc clk)))"
proof -
  define df3 where "df3 = convert_data_types pd (handle_missing_values (remove_duplicates df))"
  define df4 where "df4 = setitem ''source_file'' Object (Str (basename DOWNLOAD_PATH)) df3"
  define df5 where "df5 = setitem ''processing_batch'' Object (Str (batch_id self)) df4"
  define df6 where "df6 = setitem ''created_at'' Datetime64 (Time (datetime_now pd clk)) df5"
  define df7 where "df7 = setitem ''updated_at'' Datetime64 (Time (datetime_now pd (Suc clk))) df6"
  have res: "fst (clean_data pd self clk df) = df7"
    using assms(2) by (simp add: clean_data_def Let_def now_def df7_def df6_def df5_def df4_def df3_def)
  have wf3: "well_formed df3"
    unfolding df3_def using assms(1)
    by (intro well_formed_convert_data_types well_formed_handle_missing_values
        well_formed_remove_duplicates)
  have wf4: "well_formed df4" unfolding df4_def using wf3 by (rule well_formed_setitem)
  have wf5: "well_formed df5" unfolding df5_def using wf4 by (rule well_formed_setitem)
  have wf6: "well_formed df6" unfolding df6_def using wf5 by (rule well_formed_setitem)
  have s4: "column_const df4 ''source_file'' (Str (basename DOWNLOAD_PATH))"
    unfolding df4_def using wf3 by (rule setitem_sets)
  have s5: "column_const df5 ''processing_batch'' (Str (batch_id self))"
    unfolding df5_def using wf4 by (rule setitem_sets)
  have s6: "column_const df6 ''created_at'' (Time (datetime_now pd clk))"
    unfolding df6_def using wf5 by (rule setitem_sets)
  have s7: "column_const df7 ''updated_at'' (Time (datetime_now pd (Suc clk)))"
    unfolding df7_def using wf6 by (rule setitem_sets)
  have a: "column_const df7 ''source_file'' (Str (basename DOWNLOAD_PATH))"
    unfolding df7_def df6_def df5_def
    by (intro setitem_keeps wf6[unfolded df6_def df5_def] wf5[unfolded df5_def] wf4 s4) simp_all
  have b: "column_const df7 ''processing_batch'' (Str (batch_id self))"
    unfolding df7_def df6_def
    by (intro setitem_keeps wf6[unfolded df6_def] wf5 s5) simp_all
  have c: "column_const df7 ''created_at'' (Time (datetime_now pd clk))"
    unfolding df7_def
    by (intro setitem_keeps wf6 s6) simp_all
  show ?thesis using res a b c s7 by simp
qed

theorem provenance_uniform_witness:
  "well_formed scenario_table \<and> \<not> empty_df scenario_table
   \<and> column_const (fst (clean_data example_env (DataProcessor_init ''batch-1'') 0 scenario_table))
        ''processing_batch'' (Str ''batch-1'')
   \<and> column_const (fst (clean_data example_env (DataProcessor_init ''batch-1'') 0 scenario_table))
        ''created_at'' (Time 1000)
   \<and> column_const (fst (clean_data example_env (DataProcessor_init ''batch-1'') 0 scenario_table))
        ''updated_at'' (Time 1001)"
proof -
  have wf: "well_formed scenario_table"
    by (simp add: well_formed_def scenario_table_def)
  have ne: "\<not> empty_df scenario_table"
    by (simp add: empty_df_def scenario_table_def)
  from provenance_uniform[OF wf ne, of example_env "DataProcessor_init ''batch-1''" 0] wf ne
  show ?thesis by (simp add: example_env_def DataProcessor_init_def)
qed

text \<open>
  C5 as stated fails whenever the clock advances between the two readings: in the cleaned
  batch of the scenario every row has the creation timestamp 1000 and the update timestamp
  1001.
\<close>

theorem timestamps_differ_counterexample:
  "rows (fst (clean_data example_env (DataProcessor_init ''batch-1'') 0 scenario_table)) \<noteq> []
   \<and> column_const (fst (clean_data example_env (DataProcessor_init ''batch-1'') 0 scenario_table))
        ''created_at'' (Time 1000)
   \<and> column_const (fst (clean_data example_env (DataProcessor_init ''batch-1'') 0 scenario_table))
        ''updated_at'' (Time 1001)
   \<and> Time 1000 \<noteq> Time 1001"
  by (simp add: scenario_cleaned) (simp add: column_const_def cell_at_def)

section \<open>A source without data rows\<close>

lemma concat_frames_no_rows:
  "list_all (\<lambda>c. rows c = []) chunks \<Longrightarrow> empty_df (concat_frames chunks)"
proof (cases chunks)
  case Nil
  then show ?thesis by (simp add: empty_df_def DataFrame_def)
next
  case (Cons c cs)
  assume "list_all (\<lambda>c. rows c = []) chunks"
  then have "concat (map rows chunks) = []"
    by (simp add: list_all_iff)
  with Cons show ?thesis by (simp add: empty_df_def)
qed

lemma gz: "endswith DOWNLOAD_PATH ''.gz''"
  by (simp add: endswith_def DOWNLOAD_PATH_def)

lemma read_csv_in_chunks_no_rows:
  assumes "fs s DOWNLOAD_PATH = Some (File bytes)"
      and "pd_read_csv pd bytes CHUNK_SIZE (Some ''gzip'') = Inr chunks"
  shows "fst (read_csv_in_chunks pd DOWNLOAD_PATH None s) = Inr (concat_frames chunks)"
  using assms gz
  by (cases chunks) (simp_all add: read_csv_in_chunks_def read_file_def Let_def)

lemma read_and_process_data_no_rows:
  assumes "fs s DOWNLOAD_PATH = Some (File bytes)"
      and "pd_read_csv pd bytes CHUNK_SIZE (Some ''gzip'') = Inr chunks"
      and "list_all (\<lambda>c. rows c = []) chunks"
  shows "fst (read_and_process_data pd s) = Inl (ValueError ''No data found in CSV file'')"
proof -
  obtain r s1 where r: "read_csv_in_chunks pd DOWNLOAD_PATH None s = (r, s1)"
    by (cases "read_csv_in_chunks pd DOWNLOAD_PATH None s")
  with read_csv_in_chunks_no_rows[OF assms(1,2)] have "r = Inr (concat_frames chunks)" by simp
  with r assms(1) concat_frames_no_rows[OF assms(3)] show ?thesis
    by (simp add: read_and_process_data_def path_exists_def)
qed

lemma fst_run_pipeline_except: "fst (run_pipeline_except pd e s) = Inl e"
  by (simp add: run_pipeline_except_def Let_def now_def)

lemma fst_log_execution_time: "fst (log_execution_time pd f s) = fst (f (s\<lparr>clock := Suc (clock s)\<rparr>))"
  by (simp add: log_execution_time_def now_def Let_def split_def)

lemma db_log_execution_time:
  "db (snd (log_execution_time pd f s)) = db (snd (f (s\<lparr>clock := Suc (clock s)\<rparr>)))"
  by (simp add: log_execution_time_def now_def Let_def split_def)

lemmas run_unfold = run_pipeline_def fst_log_execution_time db_log_execution_time
  run_pipeline_body_def fst_run_pipeline_except now_def Let_def started_def


lemma run_outcome_read_failure:
  assumes "fst (fetched pd s)" "fst (read_step pd s) = Inl e"
  shows "fst (run_pipeline pd s) = Inl e
       \<and> db (snd (run_pipeline pd s))
           = db (snd (run_pipeline_except pd e (snd (read_step pd s))))"
proof -
  obtain dl s1 where d: "pipeline_download_file pd (started pd s) = (dl, s1)"
    by (cases "pipeline_download_file pd (started pd s)")
  with assms(1) have dl: "dl" and s1: "snd (fetched pd s) = s1" by (simp_all add: fetched_def)
  obtain r s2 where r: "read_and_process_data pd s1 = (r, s2)"
    by (cases "read_and_process_data pd s1")
  with assms(2) s1 have r': "r = Inl e" and s2: "snd (read_step pd s) = s2"
    by (simp_all add: read_step_def)
  show ?thesis using d dl r r' by (simp add: run_unfold s2)
qed



lemma fetched_present:
  "path_exists (fs s) DOWNLOAD_PATH \<Longrightarrow> fetched pd s = (True, started pd s)"
  by (simp add: fetched_def pipeline_download_file_def started_def)

lemma read_csv_in_chunks_raises:
  assumes "fs s DOWNLOAD_PATH = Some (File bytes)"
      and "pd_read_csv pd bytes CHUNK_SIZE (Some ''gzip'') = Inl e"
  shows "fst (read_csv_in_chunks pd DOWNLOAD_PATH None s) = Inl e
       \<and> fst (read_and_process_data pd s) = Inl e"
  using assms gz
  by (simp add: read_and_process_data_def read_csv_in_chunks_def read_file_def path_exists_def
      Let_def)

lemma run_outcome_of_read:
  assumes "fs s DOWNLOAD_PATH = Some (File bytes)"
      and "fst (read_and_process_data pd (started pd s)) = Inl e"
  shows "fst (run_pipeline pd s) = Inl e"
proof -
  have ex: "path_exists (fs s) DOWNLOAD_PATH" using assms(1) by (simp add: path_exists_def)
  have f: "fetched pd s = (True, started pd s)" by (rule fetched_present[OF ex])
  from assms(2) have "fst (read_step pd s) = Inl e" by (simp add: read_step_def f)
  with run_outcome_read_failure[of pd s e] f show ?thesis by simp
qed

lemma fs_started: "fs (started pd s) = fs s"
  by (simp add: started_def)

text \<open>
  C3, as the code has it. When the downloaded file parses and holds no data row (the parser
  yields no chunk, or only chunks without rows), the chunked reader does not raise: it
  returns an empty frame, the read step of the orchestrator turns the empty frame into
  \<^verbatim>\<open>ValueError("No data found in CSV file")\<close>, and the run fails with that exception.
  When the parser raises on the file, the reader raises the parser's exception again, and
  the read step and the run fail with that exception, not with the no-data outcome.
\<close>

theorem empty_source_outcome:
  "(fs s DOWNLOAD_PATH = Some (File bytes)
      \<and> pd_read_csv pd bytes CHUNK_SIZE (Some ''gzip'') = Inr chunks
      \<and> list_all (\<lambda>c. rows c = []) chunks
    \<longrightarrow> fst (read_csv_in_chunks pd DOWNLOAD_PATH None s) = Inr (concat_frames chunks)
        \<and> empty_df (concat_frames chunks)
        \<and> fst (read_and_process_data pd s) = Inl (ValueError ''No data found in CSV file'')
        \<and> fst (run_pipeline pd s) = Inl (ValueError ''No data found in CSV file''))
   \<and> (fs s DOWNLOAD_PATH = Some (File bytes)
      \<and> pd_read_csv pd bytes CHUNK_SIZE (Some ''gzip'') = Inl e
    \<longrightarrow> fst (read_csv_in_chunks pd DOWNLOAD_PATH None s) = Inl e
        \<and> fst (read_and_process_data pd s) = Inl e
        \<and> fst (run_pipeline pd s) = Inl e)"
proof (intro conjI impI)
  assume h: "fs s DOWNLOAD_PATH = Some (File bytes)
      \<and> pd_read_csv pd bytes CHUNK_SIZE (Some ''gzip'') = Inr chunks
      \<and> list_all (\<lambda>c. rows c = []) chunks"
  then have h1: "fs s DOWNLOAD_PATH = Some (File bytes)"
    and h2: "pd_read_csv pd bytes CHUNK_SIZE (Some ''gzip'') = Inr chunks"
    and h3: "list_all (\<lambda>c. rows c = []) chunks" by simp_all
  show "fst (read_csv_in_chunks pd DOWNLOAD_PATH None s) = Inr (concat_frames chunks)"
    by (rule read_csv_in_chunks_no_rows[OF h1 h2])
  show "empty_df (concat_frames chunks)" by (rule concat_frames_no_rows[OF h3])
  show "fst (read_and_process_data pd s) = Inl (ValueError ''No data found in CSV file'')"
    by (rule read_and_process_data_no_rows[OF h1 h2 h3])
  show "fst (run_pipeline pd s) = Inl (ValueError ''No data found in CSV file'')"
  proof (rule run_outcome_of_read[OF h1])
    from h1 have "fs (started pd s) DOWNLOAD_PATH = Some (File bytes)" by (simp add: fs_started)
    from read_and_process_data_no_rows[OF this h2 h3]
    show "fst (read_and_process_data pd (started pd s))
            = Inl (ValueError ''No data found in CSV file'')" .
  qed
next
  assume h: "fs s DOWNLOAD_PATH = Some (File bytes)
      \<and> pd_read_csv pd bytes CHUNK_SIZE (Some ''gzip'') = Inl e"
  then have h1: "fs s DOWNLOAD_PATH = Some (File bytes)"
    and h2: "pd_read_csv pd bytes CHUNK_SIZE (Some ''gzip'') = Inl e" by simp_all
  from read_csv_in_chunks_raises[OF h1 h2]
  show "fst (read_csv_in_chunks pd DOWNLOAD_PATH None s) = Inl e"
    and "fst (read_and_process_data pd s) = Inl e" by simp_all
  show "fst (run_pipeline pd s) = Inl e"
  proof (rule run_outcome_of_read[OF h1])
    from h1 have "fs (started pd s) DOWNLOAD_PATH = Some (File bytes)" by (simp add: fs_started)
    from read_csv_in_chunks_raises[OF this h2]
    show "fst (read_and_process_data pd (started pd s)) = Inl e" by simp
  qed
qed

theorem empty_source_outcome_witness:
  "fs header_only_state DOWNLOAD_PATH = Some (File header_only_csv)
   \<and> pd_read_csv example_env header_only_csv CHUNK_SIZE (Some ''gzip'')
       = Inr [\<lparr>columns = [(''a'', Object), (''b'', Object)], rows = []\<rparr>]
   \<and> fst (read_csv_in_chunks example_env DOWNLOAD_PATH None header_only_state)
       = Inr \<lparr>columns = [(''a'', Object), (''b'', Object)], rows = []\<rparr>
   \<and> fst (run_pipeline example_env header_only_state) = Inl (ValueError ''No data found in CSV file'')
   \<and> fs zero_byte_state DOWNLOAD_PATH = Some (File [])
   \<and> pd_read_csv example_env [] CHUNK_SIZE (Some ''gzip'')
       = Inl (EmptyDataError ''No columns to parse from file'')
   \<and> fst (read_and_process_data example_env zero_byte_state)
       = Inl (EmptyDataError ''No columns to parse from file'')"
proof -
  have f: "fs header_only_state DOWNLOAD_PATH = Some (File header_only_csv)"
    by (simp add: header_only_state_def DataProcessingPipeline_init_def)
  have p: "pd_read_csv example_env header_only_csv CHUNK_SIZE (Some ''gzip'')
       = Inr [\<lparr>columns = [(''a'', Object), (''b'', Object)], rows = []\<rparr>]"
    by (simp add: example_env_def header_only_csv_def)
  have e: "list_all (\<lambda>c. rows c = []) [\<lparr>columns = [(''a'', Object), (''b'', Object)], rows = []\<rparr>]"
    by simp
  have f0: "fs zero_byte_state DOWNLOAD_PATH = Some (File [])"
    by (simp add: zero_byte_state_def DataProcessingPipeline_init_def)
  have p0: "pd_read_csv example_env [] CHUNK_SIZE (Some ''gzip'')
       = Inl (EmptyDataError ''No columns to parse from file'')"
    by (simp add: example_env_def)
  from empty_source_outcome[of header_only_state header_only_csv example_env
         "[\<lparr>columns = [(''a'', Object), (''b'', Object)], rows = []\<rparr>]"]
       empty_source_outcome[of zero_byte_state "[]" example_env _
         "EmptyDataError ''No columns to parse from file''"]
       f p e f0 p0
  show ?thesis by simp
qed

text \<open>
  C3 as stated fails on a file of zero bytes. Such a file has no data row, and the program
  can leave it behind itself: the fetcher opens the destination for writing before the
  first chunk arrives, and the next run finds the path and skips the download. On it the
  parser raises \<^verbatim>\<open>EmptyDataError\<close>, the reader raises it again, and the run fails with
  that exception instead of the no-data outcome.
\<close>

theorem zero_byte_source_counterexample:
  "fst (pipeline_download_file broken_stream_env no_file_state) = False
   \<and> fs (snd (pipeline_download_file broken_stream_env no_file_state)) DOWNLOAD_PATH = Some (File [])
   \<and> fs zero_byte_state DOWNLOAD_PATH = Some (File [])
   \<and> fst (read_csv_in_chunks example_env DOWNLOAD_PATH None zero_byte_state)
       = Inl (EmptyDataError ''No columns to parse from file'')
   \<and> fst (run_pipeline example_env zero_byte_state)
       = Inl (EmptyDataError ''No columns to parse from file'')
   \<and> EmptyDataError ''No columns to parse from file'' \<noteq> ValueError ''No data found in CSV file''"
  by (simp add: zero_byte_state_def no_file_state_def broken_stream_env_def pipeline_defs
      example_env_def DOWNLOAD_PATH_def empty_df_def Let_def download_file_def
      download_file_body_def makedirs_def dirname_def open_wb_def write_file_def CSV_URL_def
      basename_def empty_database_def database_defs)


section \<open>Audit writes and step failures\<close>





































section \<open>Further facts about a run\<close>

text \<open>The step that records a completed run reads the end time of the pipeline object
  before \<^verbatim>\<open>run_pipeline\<close> has set it. On a pipeline object whose end time is still
  None, as it is on a new object, every run therefore ends with an exception: a run that
  got as far as storing its rows raises the TypeError of that step.\<close>

lemma end_time_download: "end_time (snd (pipeline_download_file pd s)) = end_time s"
  by (simp add: pipeline_download_file_def download_file_def log_execution_time_def
      download_file_body_def now_def Let_def split: sum.splits option.splits)

lemma end_time_read: "end_time (snd (read_and_process_data pd s)) = end_time s"
  by (simp add: read_and_process_data_def read_csv_in_chunks_def Let_def
      split: sum.splits prod.splits)

lemma end_time_clean: "end_time (snd (clean_and_transform_data pd df s)) = end_time s"
  by (simp add: clean_and_transform_data_def Let_def split: prod.splits)

lemma end_time_validate: "end_time (snd (validate_data_quality df s)) = end_time s"
  by (simp add: validate_data_quality_def Let_def)

lemma end_time_store: "end_time (snd (store_data_in_database df s)) = end_time s"
  by (simp add: store_data_in_database_def Let_def split: prod.splits)

lemma log_processing_results_fresh:
  "end_time s = None \<Longrightarrow> \<exists>e. fst (log_processing_results n m s) = Inl e"
  by (simp add: log_processing_results_def)

lemma fresh_body:
  assumes "end_time s = None"
  shows "\<exists>e. fst (run_pipeline_body pd s) = Inl e"
proof -
  define s0 where "s0 = s\<lparr>start_time := Some (datetime_now pd (clock s)), clock := Suc (clock s)\<rparr>"
  have e0: "end_time s0 = None" using assms by (simp add: s0_def)
  obtain dl s1 where dl: "pipeline_download_file pd s0 = (dl, s1)"
    by (cases "pipeline_download_file pd s0")
  have e1: "end_time s1 = None" using end_time_download[of pd s0] dl e0 by simp
  obtain rd s2 where rd: "read_and_process_data pd s1 = (rd, s2)"
    by (cases "read_and_process_data pd s1")
  have e2: "end_time s2 = None" using end_time_read[of pd s1] rd e1 by simp
  show ?thesis
  proof (cases "dl \<and> (\<exists>df. rd = Inr df \<and> \<not> empty_df df)")
    case False
    with dl rd show ?thesis
      by (cases rd) (auto simp: run_pipeline_body_def fst_run_pipeline_except now_def Let_def s0_def)
  next
    case True
    then obtain df where df: "dl" "rd = Inr df" "\<not> empty_df df" by blast
    obtain cl s3 where cl: "clean_and_transform_data pd df s2 = (cl, s3)"
      by (cases "clean_and_transform_data pd df s2")
    have e3: "end_time s3 = None" using end_time_clean[of pd df s2] cl e2 by simp
    obtain qm s4 where qm: "validate_data_quality cl s3 = (qm, s4)"
      by (cases "validate_data_quality cl s3")
    have e4: "end_time s4 = None" using end_time_validate[of cl s3] qm e3 by simp
    obtain st s5 where st: "store_data_in_database cl s4 = (st, s5)"
      by (cases "store_data_in_database cl s4")
    have e5: "end_time s5 = None" using end_time_store[of cl s4] st e4 by simp
    from log_processing_results_fresh[OF e5] have lr:
      "\<exists>e. fst (log_processing_results n qm s5) = Inl e" for n by blast
    show ?thesis
    proof (cases st)
      case (Inl e)
      with dl rd df cl qm st show ?thesis
        by (simp add: run_pipeline_body_def fst_run_pipeline_except now_def Let_def s0_def)
    next
      case (Inr n)
      from lr[of n] obtain e s6 where "log_processing_results n qm s5 = (Inl e, s6)"
        by (cases "log_processing_results n qm s5") auto
      with Inr dl rd df cl qm st show ?thesis
        by (simp add: run_pipeline_body_def fst_run_pipeline_except now_def Let_def s0_def)
    qed
  qed
qed

lemma fresh_pipeline_never_completes:
  "end_time s = None \<Longrightarrow> \<exists>e. fst (run_pipeline pd s) = Inl e"
  using fresh_body[of "s\<lparr>clock := Suc (clock s)\<rparr>" pd]
  by (simp add: run_pipeline_def fst_log_execution_time)

end
